theory Spec2Isabelle
  imports Complex_Main "HOL-Library.Log_Nat"
begin

section \<open>Strings and numbers of the host language\<close>

text \<open>
  The selector engine exists in two versions in the repository:
  \<^verbatim>\<open>src/EntitySelectorParser.ts\<close> and \<^verbatim>\<open>src/unnamed/part_000\<close>. Both declare the class
  \<^verbatim>\<open>EntitySelector\<close> with the same method names; where they differ, a definition below
  takes the file as a parameter.

  A string is a list of characters. Isabelle's \<^typ>\<open>char\<close> has 256 values, so the model
  covers strings whose code units are below 256; the white space that
  \<^verbatim>\<open>String.prototype.trim\<close> and \<^verbatim>\<open>parseInt\<close> skip is, in that range, TAB, LF, VT, FF, CR,
  SPACE and NBSP.
\<close>

datatype source_file = EntitySelectorParser_ts | part_000

definition is_ws :: "char \<Rightarrow> bool" where
  "is_ws c \<longleftrightarrow> c \<in> set [CHR 0x09, CHR 0x0A, CHR 0x0B, CHR 0x0C, CHR 0x0D, CHR 0x20, CHR 0xA0]"

text \<open>\<^verbatim>\<open>s.trim()\<close>\<close>

definition trim :: "string \<Rightarrow> string" where
  "trim s = rev (dropWhile is_ws (rev (dropWhile is_ws s)))"

text \<open>\<^verbatim>\<open>s.startsWith(p)\<close>, \<^verbatim>\<open>s.endsWith(p)\<close>, \<^verbatim>\<open>s.includes(p)\<close>\<close>

definition startsWith :: "string \<Rightarrow> string \<Rightarrow> bool" where
  "startsWith s p \<longleftrightarrow> take (length p) s = p"

definition endsWith :: "string \<Rightarrow> string \<Rightarrow> bool" where
  "endsWith s p \<longleftrightarrow> length p \<le> length s \<and> drop (length s - length p) s = p"

fun js_includes :: "string \<Rightarrow> string \<Rightarrow> bool" where
  "js_includes [] p = (p = [])"
| "js_includes (c # cs) p = (startsWith (c # cs) p \<or> js_includes cs p)"

text \<open>
  \<^verbatim>\<open>s.substring(1, s.length - 1)\<close>. Every call site has just checked that \<open>s\<close> starts
  with one delimiter and ends with a different one, so \<open>s\<close> has at least two characters.
\<close>

definition inner :: "string \<Rightarrow> string" where
  "inner s = butlast (tl s)"

text \<open>\<^verbatim>\<open>s.split(sep)\<close> for a one-character separator: never the empty list.\<close>

fun split_on :: "char \<Rightarrow> string \<Rightarrow> string list" where
  "split_on sep [] = [[]]"
| "split_on sep (c # cs) =
     (if c = sep then [] # split_on sep cs
      else (case split_on sep cs of p # ps \<Rightarrow> (c # p) # ps | [] \<Rightarrow> [[c]]))"

text \<open>\<^verbatim>\<open>parts.join(sep)\<close>\<close>

fun join_with :: "string \<Rightarrow> string list \<Rightarrow> string" where
  "join_with sep [] = []"
| "join_with sep [p] = p"
| "join_with sep (p # q # ps) = p @ sep @ join_with sep (q # ps)"

text \<open>\<^verbatim>\<open>s.toLowerCase()\<close> on the ASCII letters (all that a comparison with a lower-case
  ASCII word can see).\<close>

definition lower_char :: "char \<Rightarrow> char" where
  "lower_char c = (if c \<in> set ''ABCDEFGHIJKLMNOPQRSTUVWXYZ'' then char_of (of_char c + (32::nat)) else c)"

definition toLowerCase :: "string \<Rightarrow> string" where
  "toLowerCase s = map lower_char s"

text \<open>\<^verbatim>\<open>value.replace(/^"|"$/g, "")\<close>: one double quote off the front, one off the end.\<close>

definition dquote :: char where
  "dquote = CHR 0x22"

definition stripQuotes :: "string \<Rightarrow> string" where
  "stripQuotes v =
     (let v1 = (case v of c # cs \<Rightarrow> if c = dquote then cs else v | [] \<Rightarrow> v)
      in if v1 \<noteq> [] \<and> last v1 = dquote then butlast v1 else v1)"

text \<open>
  A JavaScript Number is NaN, an infinity or a finite double; \<open>Num r\<close> is the finite
  double that denotes the real \<open>r\<close> (the two zeros are one value here: the code
  never tells them apart). Comparisons, \<^verbatim>\<open>Math.min\<close>, \<^verbatim>\<open>Math.max\<close> and
  \<^verbatim>\<open>Math.abs\<close> are exact. The conversion of an integer and the sum of two doubles
  round: they are computed below where the result is exact in every engine, and taken
  from the runtime elsewhere.
\<close>

datatype jsnum = NaN | NegInf | Num real | PosInf

text \<open>\<^verbatim>\<open>a < b\<close>\<close>

fun js_lt :: "jsnum \<Rightarrow> jsnum \<Rightarrow> bool" where
  "js_lt (Num r) (Num t) = (r < t)"
| "js_lt NegInf (Num t) = True"
| "js_lt NegInf PosInf = True"
| "js_lt (Num r) PosInf = True"
| "js_lt a b = False"

text \<open>\<^verbatim>\<open>a >= b\<close>\<close>

fun js_ge :: "jsnum \<Rightarrow> jsnum \<Rightarrow> bool" where
  "js_ge NaN b = False"
| "js_ge a NaN = False"
| "js_ge a b = (\<not> js_lt a b)"

text \<open>\<^verbatim>\<open>Math.min(a, b)\<close>, \<^verbatim>\<open>Math.max(a, b)\<close>, \<^verbatim>\<open>Math.abs(a)\<close>\<close>

definition js_min :: "jsnum \<Rightarrow> jsnum \<Rightarrow> jsnum" where
  "js_min a b = (if a = NaN \<or> b = NaN then NaN else if js_lt b a then b else a)"

definition js_max :: "jsnum \<Rightarrow> jsnum \<Rightarrow> jsnum" where
  "js_max a b = (if a = NaN \<or> b = NaN then NaN else if js_lt a b then b else a)"

fun js_abs :: "jsnum \<Rightarrow> jsnum" where
  "js_abs (Num r) = Num \<bar>r\<bar>"
| "js_abs NegInf = PosInf"
| "js_abs a = a"

text \<open>
  Two doubles whose sum no engine rounds: both are integers and the sum is at most
  \<open>2 ^ 53\<close> in magnitude, so it is an integer that a double holds.
\<close>

definition exactSum :: "real \<Rightarrow> real \<Rightarrow> bool" where
  "exactSum a b \<longleftrightarrow> of_int \<lfloor>a\<rfloor> = a \<and> of_int \<lfloor>b\<rfloor> = b \<and> \<bar>a + b\<bar> \<le> 2 ^ 53"

text \<open>
  \<^verbatim>\<open>a + b\<close> on Numbers. \<open>roundedSum a b\<close> is what the runtime returns for two finite
  doubles whose sum it may have to round: the nearest double, or \<open>None\<close> when the sum
  overflows to an infinity. Adding zero changes nothing.
\<close>

fun js_add :: "(real \<Rightarrow> real \<Rightarrow> real option) \<Rightarrow> jsnum \<Rightarrow> jsnum \<Rightarrow> jsnum" where
  "js_add roundedSum (Num a) (Num b) =
     (if a = 0 then Num b
      else if b = 0 then Num a
      else if exactSum a b then Num (a + b)
      else (case roundedSum a b of
              Some r \<Rightarrow> Num r
            | None \<Rightarrow> if a + b < 0 then NegInf else PosInf))"
| "js_add roundedSum NaN b = NaN"
| "js_add roundedSum a NaN = NaN"
| "js_add roundedSum PosInf NegInf = NaN"
| "js_add roundedSum NegInf PosInf = NaN"
| "js_add roundedSum PosInf b = PosInf"
| "js_add roundedSum a PosInf = PosInf"
| "js_add roundedSum NegInf b = NegInf"
| "js_add roundedSum a NegInf = NegInf"

section \<open>What the runtime provides\<close>

datatype json =
    JNull
  | JBool bool
  | JNumber jsnum
  | JString string
  | JArray "json list"
  | JObject "(string \<times> json) list"

text \<open>
  Built-ins of the language that the parser calls and whose results are taken as given:
  \<^verbatim>\<open>parseFloat(s)\<close>; \<^verbatim>\<open>isFinite(Number(s))\<close>; \<^verbatim>\<open>JSON.parse(s)\<close> (\<open>None\<close>: it throws);
  \<^verbatim>\<open>String(v)\<close> of a JSON value that is not a string; for
  src/EntitySelectorParser.ts, the text that its three chained \<^verbatim>\<open>replace\<close> calls
  with regular expressions make of a \<^verbatim>\<open>hasitem\<close> value (\<^verbatim>\<open>jsonCompliantValue\<close>);
  and \<open>roundInteger\<close>, the double that \<^verbatim>\<open>parseInt\<close> returns for an integer of more than
  \<open>2 ^ 53\<close> in magnitude (\<open>None\<close>: an infinity).
\<close>

record runtime =
  parseFloat :: "string \<Rightarrow> jsnum"
  numberIsFinite :: "string \<Rightarrow> bool"
  JSON_parse :: "string \<Rightarrow> json option"
  toString :: "json \<Rightarrow> string"
  jsonCompliantValue :: "string \<Rightarrow> string"
  roundInteger :: "int \<Rightarrow> real option"

text \<open>
  \<^verbatim>\<open>parseInt(s, 10)\<close>. First the integer it reads: skip leading white space, read an
  optional sign, then the longest run of decimal digits; \<open>None\<close> when that run is empty.
\<close>

definition is_digit :: "char \<Rightarrow> bool" where
  "is_digit c \<longleftrightarrow> c \<in> set ''0123456789''"

definition digit_value :: "char \<Rightarrow> int" where
  "digit_value c = of_char c - 48"

fun digits_value :: "int \<Rightarrow> string \<Rightarrow> int" where
  "digits_value acc [] = acc"
| "digits_value acc (c # cs) = digits_value (10 * acc + digit_value c) cs"

definition integerPrefix :: "string \<Rightarrow> int option" where
  "integerPrefix s =
     (let t = dropWhile is_ws s;
          neg = (t \<noteq> [] \<and> hd t = CHR ''-'');
          u = (if t \<noteq> [] \<and> (hd t = CHR ''-'' \<or> hd t = CHR ''+'') then tl t else t);
          ds = takeWhile is_digit u
      in if ds = [] then None
         else Some (if neg then - digits_value 0 ds else digits_value 0 ds))"

text \<open>
  Then the Number for that integer: the integer itself up to \<open>2 ^ 53\<close> in magnitude,
  where a double holds every integer, and the runtime's rounding beyond.
\<close>

definition integerToNumber :: "runtime \<Rightarrow> int \<Rightarrow> jsnum" where
  "integerToNumber rt n =
     (if \<bar>n\<bar> \<le> 2 ^ 53 then Num (real_of_int n)
      else (case roundInteger rt n of
              Some r \<Rightarrow> Num r
            | None \<Rightarrow> if n < 0 then NegInf else PosInf))"

definition parseInt :: "runtime \<Rightarrow> string \<Rightarrow> jsnum" where
  "parseInt rt s = (case integerPrefix s of None \<Rightarrow> NaN | Some n \<Rightarrow> integerToNumber rt n)"

section \<open>The range grammar\<close>

text \<open>
  The group \<^verbatim>\<open>(-?\d+)\<close> at the front of a string: the text it matches and the rest.
\<close>

definition match_int_group :: "string \<Rightarrow> (string \<times> string) option" where
  "match_int_group s =
     (let sg = (if s \<noteq> [] \<and> hd s = CHR ''-'' then ''-'' else []);
          r = drop (length sg) s;
          ds = takeWhile is_digit r
      in if ds = [] then None else Some (sg @ ds, dropWhile is_digit r))"

text \<open>
  \<^verbatim>\<open>str.match(/^(-?\d+)?\.\.(-?\d+)?$/)\<close>: \<open>None\<close> when there is no match, else the two
  groups (\<open>None\<close> for a group that took no part). A digit is never a dot, so the greedy
  match is the only one.
\<close>

definition rangeMatch :: "string \<Rightarrow> (string option \<times> string option) option" where
  "rangeMatch s =
     (let m1 = match_int_group s;
          g1 = map_option fst m1;
          r1 = (case m1 of None \<Rightarrow> s | Some (g, r) \<Rightarrow> r)
      in if startsWith r1 ''..'' then
           (let r2 = drop 2 r1;
                m2 = match_int_group r2;
                g2 = map_option fst m2;
                r3 = (case m2 of None \<Rightarrow> r2 | Some (g, r) \<Rightarrow> r)
            in if r3 = [] then Some (g1, g2) else None)
         else None)"

text \<open>
  The block that \<^verbatim>\<open>_parseArguments\<close> repeats for a \<^verbatim>\<open>scores\<close> value, an item
  \<^verbatim>\<open>quantity\<close> and an item \<^verbatim>\<open>slot\<close>: the two bounds it sets (\<open>None\<close>: left unset).
  \<^verbatim>\<open>
  const rangeMatch = str.match(/^(-?\d+)?\.\.(-?\d+)?$/);
  if (rangeMatch) {
    if (rangeMatch[1]) min = parseInt(rangeMatch[1], 10);
    if (rangeMatch[2]) max = parseInt(rangeMatch[2], 10);
  } else {
    const n = parseInt(str, 10);
    if (!isNaN(n)) { min = n; max = n; }
  }
  \<close>
\<close>

definition parseRange :: "runtime \<Rightarrow> string \<Rightarrow> jsnum option \<times> jsnum option" where
  "parseRange rt str =
     (case rangeMatch str of
        Some (g1, g2) \<Rightarrow> (map_option (parseInt rt) g1, map_option (parseInt rt) g2)
      | None \<Rightarrow> if parseInt rt str \<noteq> NaN then (Some (parseInt rt str), Some (parseInt rt str))
                else (None, None))"

section \<open>The argument tokenizer\<close>

text \<open>
  The first loop of \<^verbatim>\<open>_parseArguments\<close> (the same text in both files): the characters
  still to read, then \<^verbatim>\<open>args\<close>, \<^verbatim>\<open>currentArg\<close>, \<^verbatim>\<open>inBraces\<close> and
  \<^verbatim>\<open>inSquareBrackets\<close>.
\<close>

fun tokenizeLoop :: "string \<Rightarrow> string list \<Rightarrow> string \<Rightarrow> int \<Rightarrow> int \<Rightarrow> string list" where
  "tokenizeLoop [] args currentArg inBraces inSquareBrackets = args @ [trim currentArg]"
| "tokenizeLoop (c # cs) args currentArg inBraces inSquareBrackets =
     (if c = CHR ''{'' then tokenizeLoop cs args (currentArg @ [c]) (inBraces + 1) inSquareBrackets
      else if c = CHR ''}'' then tokenizeLoop cs args (currentArg @ [c]) (inBraces - 1) inSquareBrackets
      else if c = CHR ''['' then tokenizeLoop cs args (currentArg @ [c]) inBraces (inSquareBrackets + 1)
      else if c = CHR '']'' then tokenizeLoop cs args (currentArg @ [c]) inBraces (inSquareBrackets - 1)
      else if c = CHR '','' \<and> inBraces = 0 \<and> inSquareBrackets = 0
        then tokenizeLoop cs (args @ [trim (butlast (currentArg @ [c]))]) [] inBraces inSquareBrackets
      else tokenizeLoop cs args (currentArg @ [c]) inBraces inSquareBrackets)"

definition tokenize :: "string \<Rightarrow> string list" where
  "tokenize argsString = tokenizeLoop argsString [] [] 0 0"

text \<open>
  What the specification says of the tokenizer, in its own words: the depth of a prefix
  is the number of opening delimiters minus the number of closing ones; a cut point is
  a comma before which both depths are zero; the pieces are what lies between
  consecutive cut points.
\<close>

definition depth :: "char \<Rightarrow> char \<Rightarrow> string \<Rightarrow> int" where
  "depth opening closing p = int (count_list p opening) - int (count_list p closing)"

definition top_level_comma :: "string \<Rightarrow> nat \<Rightarrow> bool" where
  "top_level_comma s i \<longleftrightarrow>
     i < length s \<and> s ! i = CHR '','' \<and>
     depth (CHR ''{'') (CHR ''}'') (take i s) = 0 \<and>
     depth (CHR ''['') (CHR '']'') (take i s) = 0"

definition cut_points :: "string \<Rightarrow> nat list" where
  "cut_points s = filter (top_level_comma s) [0..<length s]"

fun pieces :: "nat \<Rightarrow> nat list \<Rightarrow> string \<Rightarrow> string list" where
  "pieces a [] s = [drop a s]"
| "pieces a (p # ps) s = take (p - a) (drop a s) # pieces (Suc p) ps s"

section \<open>The query model\<close>

record vector3 =
  vec_x :: jsnum
  vec_y :: jsnum
  vec_z :: jsnum

text \<open>\<^verbatim>\<open>interface ScoreFilter\<close> (\<^verbatim>\<open>EntityQueryScoreOptions\<close> in part_000)\<close>

record scoreFilter =
  objective :: string
  minScore :: "jsnum option"
  maxScore :: "jsnum option"

text \<open>\<^verbatim>\<open>{ min?: number; max?: number }\<close>\<close>

record numrange =
  rmin :: "jsnum option"
  rmax :: "jsnum option"

text \<open>\<^verbatim>\<open>interface HasItemFilter\<close>\<close>

record hasItemFilter =
  hi_item :: "string option"
  hi_quantity :: "numrange option"
  hi_data :: "jsnum option"
  hi_location :: "string option"
  hi_slot :: "numrange option"

text \<open>
  \<^verbatim>\<open>EntityQueryOptions\<close> with \<^verbatim>\<open>scoreOptions\<close>: a field that is \<open>None\<close> is an absent
  property. \<open>qtype\<close> and \<open>qname\<close> are the properties \<^verbatim>\<open>type\<close> and \<^verbatim>\<open>name\<close>.
\<close>

record query_options =
  qtype :: "string option"
  excludeTypes :: "string list option"
  qname :: "string option"
  tags :: "string list option"
  excludeTags :: "string list option"
  families :: "string list option"
  excludeFamilies :: "string list option"
  gameMode :: "string option"
  maxLevel :: "jsnum option"
  minLevel :: "jsnum option"
  location :: "vector3 option"
  volume :: "vector3 option"
  maxDistance :: "jsnum option"
  minDistance :: "jsnum option"
  closest :: "jsnum option"
  farthest :: "jsnum option"
  maxVerticalRotation :: "jsnum option"
  minVerticalRotation :: "jsnum option"
  maxHorizontalRotation :: "jsnum option"
  minHorizontalRotation :: "jsnum option"
  scoreOptions :: "scoreFilter list option"

definition no_options :: query_options where
  "no_options =
     \<lparr>qtype = None, excludeTypes = None, qname = None, tags = None, excludeTags = None,
      families = None, excludeFamilies = None, gameMode = None, maxLevel = None,
      minLevel = None, location = None, volume = None, maxDistance = None,
      minDistance = None, closest = None, farthest = None, maxVerticalRotation = None,
      minVerticalRotation = None, maxHorizontalRotation = None,
      minHorizontalRotation = None, scoreOptions = None\<rparr>"

text \<open>The calls of \<^verbatim>\<open>console.warn\<close>, by the place that makes them.\<close>

datatype warning =
    InvalidSelectorFormat string
  | InvalidArgumentFormat string
  | UnsupportedArgument string
  | HasItemInvalidValue string
  | HasItemParseFailed string
  | SelfNeedsExecutor

text \<open>
  The fields of an \<^verbatim>\<open>EntitySelector\<close> object. \<open>console\<close> is not a field of the class:
  it lists the warnings the object has printed, oldest first. The dimension is the host's
  and appears below as a parameter of evaluation.
\<close>

record 'e selector =
  selectorString :: string
  executionLocation :: "vector3 option"
  executor :: "'e option"
  targetSelectorSymbol :: string
  queryOptions :: query_options
  hasItemFilters :: "hasItemFilter list"
  console :: "warning list"

definition warn :: "warning \<Rightarrow> 'e selector \<Rightarrow> 'e selector" where
  "warn w s = s\<lparr>console := console s @ [w]\<rparr>"

section \<open>Values decoded from JSON\<close>

definition js_String :: "runtime \<Rightarrow> json \<Rightarrow> string" where
  "js_String rt v = (case v of JString s \<Rightarrow> s | _ \<Rightarrow> toString rt v)"

text \<open>\<^verbatim>\<open>v.k\<close> for a JSON value that is not null (\<open>None\<close>: undefined).\<close>

definition js_property :: "json \<Rightarrow> string \<Rightarrow> json option" where
  "js_property v k = (case v of JObject kvs \<Rightarrow> map_of kvs k | _ \<Rightarrow> None)"

section \<open>The hasitem argument\<close>

definition rangeOfString :: "runtime \<Rightarrow> string \<Rightarrow> numrange" where
  "rangeOfString rt str = \<lparr>rmin = fst (parseRange rt str), rmax = snd (parseRange rt str)\<rparr>"

text \<open>
  \<^verbatim>\<open>filter.quantity\<close> and \<^verbatim>\<open>filter.slot\<close> from the decoded value. A number gives
  \<open>min = max\<close>; a string goes through the range block; any other value leaves both
  bounds unset in src/EntitySelectorParser.ts (\<^verbatim>\<open>typeof ... === "string"\<close> fails) and is
  converted with \<^verbatim>\<open>String\<close> first in part_000.
\<close>

definition rangeField :: "source_file \<Rightarrow> runtime \<Rightarrow> json \<Rightarrow> numrange" where
  "rangeField src rt v =
     (case v of
        JNumber n \<Rightarrow> \<lparr>rmin = Some n, rmax = Some n\<rparr>
      | JString str \<Rightarrow> rangeOfString rt str
      | _ \<Rightarrow> (case src of
                EntitySelectorParser_ts \<Rightarrow> \<lparr>rmin = None, rmax = None\<rparr>
              | part_000 \<Rightarrow> rangeOfString rt (toString rt v)))"

text \<open>The body of \<^verbatim>\<open>for (const itemCondition of parsedItems)\<close> up to the push.\<close>

definition buildFilter :: "source_file \<Rightarrow> runtime \<Rightarrow> json \<Rightarrow> hasItemFilter" where
  "buildFilter src rt itemCondition =
     \<lparr>hi_item = map_option (js_String rt) (js_property itemCondition ''item''),
      hi_quantity =
        Some (case js_property itemCondition ''quantity'' of
                Some q \<Rightarrow> rangeField src rt q
              | None \<Rightarrow> \<lparr>rmin = Some (Num 1), rmax = None\<rparr>),
      hi_data = map_option (\<lambda>d. parseInt rt (js_String rt d)) (js_property itemCondition ''data''),
      hi_location = map_option (js_String rt) (js_property itemCondition ''location''),
      hi_slot = map_option (rangeField src rt) (js_property itemCondition ''slot'')\<rparr>"

text \<open>
  The loop over \<^verbatim>\<open>parsedItems\<close>, inside the \<^verbatim>\<open>try\<close>: reading a property of
  \<^verbatim>\<open>null\<close> throws, the \<^verbatim>\<open>catch\<close> warns, and the filters pushed before stay.
\<close>

fun pushFilters :: "source_file \<Rightarrow> runtime \<Rightarrow> string \<Rightarrow> json list \<Rightarrow> 'e selector \<Rightarrow> 'e selector" where
  "pushFilters src rt trimmedValue [] s = s"
| "pushFilters src rt trimmedValue (itemCondition # rest) s =
     (if itemCondition = JNull then warn (HasItemParseFailed trimmedValue) s
      else pushFilters src rt trimmedValue rest
             (s\<lparr>hasItemFilters := hasItemFilters s @ [buildFilter src rt itemCondition]\<rparr>))"

text \<open>\<^verbatim>\<open>case "hasitem"\<close> of src/EntitySelectorParser.ts\<close>

definition hasitem_EntitySelectorParser_ts :: "runtime \<Rightarrow> string \<Rightarrow> 'e selector \<Rightarrow> 'e selector" where
  "hasitem_EntitySelectorParser_ts rt trimmedValue s =
     (let jsonText = jsonCompliantValue rt trimmedValue in
      if startsWith jsonText ''['' then
        (case JSON_parse rt jsonText of
           None \<Rightarrow> warn (HasItemParseFailed trimmedValue) s
         | Some (JArray parsedItems) \<Rightarrow> pushFilters EntitySelectorParser_ts rt trimmedValue parsedItems s
         | Some _ \<Rightarrow> s)
      else if startsWith jsonText ''{'' then
        (case JSON_parse rt jsonText of
           None \<Rightarrow> warn (HasItemParseFailed trimmedValue) s
         | Some obj \<Rightarrow> pushFilters EntitySelectorParser_ts rt trimmedValue [obj] s)
      else warn (HasItemInvalidValue trimmedValue) s)"

text \<open>
  \<^verbatim>\<open>parseObjectString\<close> of part_000. Its first loop: the characters still to read, then
  \<^verbatim>\<open>assignments\<close>, \<^verbatim>\<open>currentPair\<close> and \<^verbatim>\<open>braceDepth\<close>. An opening brace is counted
  and not copied.
\<close>

fun splitAssignments :: "string \<Rightarrow> string list \<Rightarrow> string \<Rightarrow> int \<Rightarrow> string list" where
  "splitAssignments [] assignments currentPair braceDepth =
     (if trim currentPair \<noteq> [] then assignments @ [trim currentPair] else assignments)"
| "splitAssignments (c # cs) assignments currentPair braceDepth =
     (if c = CHR ''{'' then splitAssignments cs assignments currentPair (braceDepth + 1)
      else if c = CHR ''}'' then splitAssignments cs assignments (currentPair @ [c]) (braceDepth - 1)
      else if c = CHR '','' \<and> braceDepth = 0
        then splitAssignments cs (assignments @ [trim currentPair]) [] braceDepth
      else splitAssignments cs assignments (currentPair @ [c]) braceDepth)"

text \<open>\<^verbatim>\<open>value.replace(/"/g, '\\"')\<close>\<close>

definition escapeQuotes :: "string \<Rightarrow> string" where
  "escapeQuotes v = concat (map (\<lambda>c. if c = dquote then [CHR 0x5C, dquote] else [c]) v)"

text \<open>One element of \<^verbatim>\<open>jsonPairs\<close>.\<close>

definition jsonPair :: "runtime \<Rightarrow> string \<Rightarrow> string" where
  "jsonPair rt assign =
     (let parts = split_on (CHR ''='') assign;
          key = trim (hd parts);
          val = trim (join_with ''='' (tl parts));
          processedValue =
            (if parseFloat rt val \<noteq> NaN \<and> numberIsFinite rt val \<and> \<not> js_includes val ''..''
               then val
             else if toLowerCase val = ''true'' \<or> toLowerCase val = ''false''
               then toLowerCase val
             else if startsWith val [dquote] \<and> endsWith val [dquote] then val
             else [dquote] @ escapeQuotes val @ [dquote])
      in [dquote] @ key @ [dquote] @ '':'' @ processedValue)"

definition parseObjectString :: "runtime \<Rightarrow> string \<Rightarrow> string" where
  "parseObjectString rt objStr =
     ''{'' @ join_with '','' (map (jsonPair rt) (splitAssignments objStr [] [] 0)) @ ''}''"

text \<open>
  The loop of part_000 that cuts \<^verbatim>\<open>arrayContent\<close> into \<^verbatim>\<open>objectStrings\<close>: the whole
  text, the characters still to read, then \<^verbatim>\<open>i\<close>, \<^verbatim>\<open>startIndex\<close>, \<^verbatim>\<open>balance\<close> and
  the strings pushed so far.
\<close>

fun splitObjects :: "string \<Rightarrow> string \<Rightarrow> nat \<Rightarrow> nat \<Rightarrow> int \<Rightarrow> string list \<Rightarrow> string list" where
  "splitObjects arrayContent [] i startIndex balance objectStrings =
     objectStrings @ [drop startIndex arrayContent]"
| "splitObjects arrayContent (c # cs) i startIndex balance objectStrings =
     (if c = CHR ''{'' then splitObjects arrayContent cs (i + 1) startIndex (balance + 1) objectStrings
      else if c = CHR ''}'' then splitObjects arrayContent cs (i + 1) startIndex (balance - 1) objectStrings
      else if c = CHR '','' \<and> balance = 0 \<and> i > startIndex
        then splitObjects arrayContent cs (i + 1) (i + 1) balance
               (objectStrings @ [take (i - startIndex) (drop startIndex arrayContent)])
      else splitObjects arrayContent cs (i + 1) startIndex balance objectStrings)"

definition isObjectString :: "string \<Rightarrow> bool" where
  "isObjectString objStr \<longleftrightarrow> startsWith (trim objStr) ''{'' \<and> endsWith (trim objStr) ''}''"

text \<open>
  \<^verbatim>\<open>case "hasitem"\<close> of part_000. Every \<^verbatim>\<open>throw\<close> and every failure of
  \<^verbatim>\<open>JSON.parse\<close> lands in the one \<^verbatim>\<open>catch\<close>, which warns.
\<close>

definition hasitem_part_000 :: "runtime \<Rightarrow> string \<Rightarrow> 'e selector \<Rightarrow> 'e selector" where
  "hasitem_part_000 rt trimmedValue s =
     (if startsWith trimmedValue ''['' then
        (if \<not> endsWith trimmedValue '']'' then warn (HasItemParseFailed trimmedValue) s
         else if trim (inner trimmedValue) = [] then s
         else
           (let objectStrings = splitObjects (inner trimmedValue) (inner trimmedValue) 0 0 0 [] in
            if \<not> list_all isObjectString objectStrings then warn (HasItemParseFailed trimmedValue) s
            else
              (case JSON_parse rt
                      (''['' @ join_with '',''
                          (map (\<lambda>objStr. parseObjectString rt (inner (trim objStr))) objectStrings) @ '']'') of
                 None \<Rightarrow> warn (HasItemParseFailed trimmedValue) s
               | Some (JArray parsedItems) \<Rightarrow> pushFilters part_000 rt trimmedValue parsedItems s
               | Some _ \<Rightarrow> s)))
      else if startsWith trimmedValue ''{'' then
        (if \<not> endsWith trimmedValue ''}'' then warn (HasItemParseFailed trimmedValue) s
         else if trim (inner trimmedValue) = []
           then pushFilters part_000 rt trimmedValue [JObject []] s
         else
           (case JSON_parse rt (parseObjectString rt (inner trimmedValue)) of
              None \<Rightarrow> warn (HasItemParseFailed trimmedValue) s
            | Some obj \<Rightarrow> pushFilters part_000 rt trimmedValue [obj] s))
      else warn (HasItemInvalidValue trimmedValue) s)"

section \<open>The argument interpreter\<close>

text \<open>\<^verbatim>\<open>if (!arr) arr = []; arr.push(v)\<close>\<close>

definition pushTo :: "'a list option \<Rightarrow> 'a \<Rightarrow> 'a list option" where
  "pushTo arr v = Some ((case arr of None \<Rightarrow> [] | Some xs \<Rightarrow> xs) @ [v])"

text \<open>\<^verbatim>\<open>(vec as any)[axis] = n\<close> for \<open>axis\<close> one of \<open>x\<close>, \<open>y\<close>, \<open>z\<close>\<close>

definition setAxis :: "string \<Rightarrow> jsnum \<Rightarrow> vector3 \<Rightarrow> vector3" where
  "setAxis axis n v =
     (if axis = ''x'' then v\<lparr>vec_x := n\<rparr>
      else if axis = ''y'' then v\<lparr>vec_y := n\<rparr>
      else if axis = ''z'' then v\<lparr>vec_z := n\<rparr>
      else v)"

definition zeroVector :: vector3 where
  "zeroVector = \<lparr>vec_x = Num 0, vec_y = Num 0, vec_z = Num 0\<rparr>"

text \<open>\<^verbatim>\<open>this.executionLocation?.x ?? 0\<close> and the same for \<open>y\<close> and \<open>z\<close>\<close>

definition contextOrigin :: "'e selector \<Rightarrow> vector3" where
  "contextOrigin s = (case executionLocation s of Some l \<Rightarrow> l | None \<Rightarrow> zeroVector)"

text \<open>
  The object assigned to \<^verbatim>\<open>this.queryOptions.location\<close> when it is still undefined.
  src/EntitySelectorParser.ts already puts the parsed value on the argument's own axis
  there; part_000 takes all three axes from the context.
\<close>

definition initialLocation :: "source_file \<Rightarrow> runtime \<Rightarrow> string \<Rightarrow> string \<Rightarrow> 'e selector \<Rightarrow> vector3" where
  "initialLocation src rt trimmedKey trimmedValue s =
     (case src of
        EntitySelectorParser_ts \<Rightarrow>
          \<lparr>vec_x = (if trimmedKey = ''x'' then parseFloat rt trimmedValue else vec_x (contextOrigin s)),
           vec_y = (if trimmedKey = ''y'' then parseFloat rt trimmedValue else vec_y (contextOrigin s)),
           vec_z = (if trimmedKey = ''z'' then parseFloat rt trimmedValue else vec_z (contextOrigin s))\<rparr>
      | part_000 \<Rightarrow> contextOrigin s)"

text \<open>One element of \<^verbatim>\<open>scoreArgs\<close>: the filter pushed for it, if any.\<close>

definition parseScoreArg :: "runtime \<Rightarrow> string \<Rightarrow> scoreFilter option" where
  "parseScoreArg rt scoreArg =
     (case split_on (CHR ''='') scoreArg of
        objName # scoreValStr # _ \<Rightarrow>
          if objName \<noteq> [] \<and> scoreValStr \<noteq> [] then
            (let r = parseRange rt (trim scoreValStr) in
             if fst r \<noteq> None \<or> snd r \<noteq> None
               then Some \<lparr>objective = trim objName, minScore = fst r, maxScore = snd r\<rparr>
             else None)
          else None
      | _ \<Rightarrow> None)"

text \<open>\<^verbatim>\<open>case "scores"\<close>\<close>

definition scoresArgument :: "runtime \<Rightarrow> string \<Rightarrow> query_options \<Rightarrow> query_options" where
  "scoresArgument rt trimmedValue q =
     (if startsWith trimmedValue ''{'' \<and> endsWith trimmedValue ''}'' then
        q\<lparr>scoreOptions :=
            Some ((case scoreOptions q of None \<Rightarrow> [] | Some fs \<Rightarrow> fs) @
                  List.map_filter (parseScoreArg rt) (split_on (CHR '','') (inner trimmedValue)))\<rparr>
      else q)"

text \<open>\<^verbatim>\<open>case "c"\<close>\<close>

definition countArgument :: "runtime \<Rightarrow> string \<Rightarrow> query_options \<Rightarrow> query_options" where
  "countArgument rt trimmedValue q =
     (let count = parseInt rt trimmedValue in
      if count \<noteq> NaN then
        (if js_lt (Num 0) count then q\<lparr>closest := Some count\<rparr>
         else if js_lt count (Num 0) then q\<lparr>farthest := Some (js_abs count)\<rparr>
         else q)
      else q)"

text \<open>
  \<^verbatim>\<open>switch (trimmedKey)\<close>. The four rotation cases stand in part_000 only; in
  src/EntitySelectorParser.ts those keys reach \<^verbatim>\<open>default\<close>.
\<close>

definition dispatch :: "source_file \<Rightarrow> runtime \<Rightarrow> string \<Rightarrow> string \<Rightarrow> 'e selector \<Rightarrow> 'e selector" where
  "dispatch src rt trimmedKey trimmedValue s =
     (let q = queryOptions s in
      if trimmedKey = ''type'' then
        (if startsWith trimmedValue ''!''
           then s\<lparr>queryOptions := q\<lparr>excludeTypes := pushTo (excludeTypes q) (drop 1 trimmedValue)\<rparr>\<rparr>
         else s\<lparr>queryOptions := q\<lparr>qtype := Some trimmedValue\<rparr>\<rparr>)
      else if trimmedKey = ''name'' then s\<lparr>queryOptions := q\<lparr>qname := Some trimmedValue\<rparr>\<rparr>
      else if trimmedKey = ''tag'' then
        (if startsWith trimmedValue ''!''
           then s\<lparr>queryOptions := q\<lparr>excludeTags := pushTo (excludeTags q) (drop 1 trimmedValue)\<rparr>\<rparr>
         else s\<lparr>queryOptions := q\<lparr>tags := pushTo (tags q) trimmedValue\<rparr>\<rparr>)
      else if trimmedKey = ''family'' then
        (if startsWith trimmedValue ''!''
           then s\<lparr>queryOptions := q\<lparr>excludeFamilies := pushTo (excludeFamilies q) (drop 1 trimmedValue)\<rparr>\<rparr>
         else s\<lparr>queryOptions := q\<lparr>families := pushTo (families q) trimmedValue\<rparr>\<rparr>)
      else if trimmedKey = ''x'' \<or> trimmedKey = ''y'' \<or> trimmedKey = ''z'' then
        s\<lparr>queryOptions := q\<lparr>location :=
            Some (setAxis trimmedKey (parseFloat rt trimmedValue)
                    (case location q of
                       None \<Rightarrow> initialLocation src rt trimmedKey trimmedValue s
                     | Some l \<Rightarrow> l))\<rparr>\<rparr>
      else if trimmedKey = ''dx'' \<or> trimmedKey = ''dy'' \<or> trimmedKey = ''dz'' then
        s\<lparr>queryOptions := q\<lparr>volume :=
            Some (setAxis (drop 1 trimmedKey) (parseFloat rt trimmedValue)
                    (case volume q of None \<Rightarrow> zeroVector | Some v \<Rightarrow> v))\<rparr>\<rparr>
      else if trimmedKey = ''r'' then
        s\<lparr>queryOptions := q\<lparr>maxDistance := Some (parseInt rt trimmedValue)\<rparr>\<rparr>
      else if trimmedKey = ''rm'' then
        s\<lparr>queryOptions := q\<lparr>minDistance := Some (parseInt rt trimmedValue)\<rparr>\<rparr>
      else if trimmedKey = ''c'' then s\<lparr>queryOptions := countArgument rt trimmedValue q\<rparr>
      else if trimmedKey = ''m'' then s\<lparr>queryOptions := q\<lparr>gameMode := Some trimmedValue\<rparr>\<rparr>
      else if trimmedKey = ''l'' then
        s\<lparr>queryOptions := q\<lparr>maxLevel := Some (parseInt rt trimmedValue)\<rparr>\<rparr>
      else if trimmedKey = ''lm'' then
        s\<lparr>queryOptions := q\<lparr>minLevel := Some (parseInt rt trimmedValue)\<rparr>\<rparr>
      else if src = part_000 \<and> trimmedKey = ''rx'' then
        s\<lparr>queryOptions := q\<lparr>maxVerticalRotation := Some (parseFloat rt trimmedValue)\<rparr>\<rparr>
      else if src = part_000 \<and> trimmedKey = ''rxm'' then
        s\<lparr>queryOptions := q\<lparr>minVerticalRotation := Some (parseFloat rt trimmedValue)\<rparr>\<rparr>
      else if src = part_000 \<and> trimmedKey = ''ry'' then
        s\<lparr>queryOptions := q\<lparr>maxHorizontalRotation := Some (parseFloat rt trimmedValue)\<rparr>\<rparr>
      else if src = part_000 \<and> trimmedKey = ''rym'' then
        s\<lparr>queryOptions := q\<lparr>minHorizontalRotation := Some (parseFloat rt trimmedValue)\<rparr>\<rparr>
      else if trimmedKey = ''scores'' then s\<lparr>queryOptions := scoresArgument rt trimmedValue q\<rparr>
      else if trimmedKey = ''hasitem'' then
        (case src of
           EntitySelectorParser_ts \<Rightarrow> hasitem_EntitySelectorParser_ts rt trimmedValue s
         | part_000 \<Rightarrow> hasitem_part_000 rt trimmedValue s)
      else warn (UnsupportedArgument trimmedKey) s)"

text \<open>
  The body of \<^verbatim>\<open>for (const arg of args)\<close>. The source guards the dispatch with
  \<^verbatim>\<open>if (!key || value === undefined)\<close>; \<^verbatim>\<open>value\<close> is the result of
  \<^verbatim>\<open>valueParts.join("=").trim()\<close>, a string, so only the first test can hold.
\<close>

definition parseArgument :: "source_file \<Rightarrow> runtime \<Rightarrow> string \<Rightarrow> 'e selector \<Rightarrow> 'e selector" where
  "parseArgument src rt arg s =
     (if arg = [] then s
      else
        (let parts = split_on (CHR ''='') arg;
             key = hd parts;
             val = trim (join_with ''='' (tl parts))
         in if key = [] then warn (InvalidArgumentFormat arg) s
            else dispatch src rt (trim key) (stripQuotes val) s))"

text \<open>The second loop of \<^verbatim>\<open>_parseArguments\<close>, over a list of tokens.\<close>

definition interpretAll :: "source_file \<Rightarrow> runtime \<Rightarrow> string list \<Rightarrow> 'e selector \<Rightarrow> 'e selector" where
  "interpretAll src rt args s = foldl (\<lambda>st arg. parseArgument src rt arg st) s args"

definition parseArguments :: "source_file \<Rightarrow> runtime \<Rightarrow> string \<Rightarrow> 'e selector \<Rightarrow> 'e selector" where
  "parseArguments src rt argsString s = interpretAll src rt (tokenize argsString) s"

section \<open>Construction\<close>

text \<open>A dot of a regular expression matches any character but a line terminator.\<close>

definition noLineTerminator :: "string \<Rightarrow> bool" where
  "noLineTerminator s \<longleftrightarrow> CHR 0x0A \<notin> set s \<and> CHR 0x0D \<notin> set s"

text \<open>
  \<^verbatim>\<open>str.match(/^(@[parse])(?:\[(.*?)\])?$/)\<close>: the symbol and, when the bracket group
  takes part, the text between the first bracket and the last character.
\<close>

definition selectorMatch :: "string \<Rightarrow> (string \<times> string option) option" where
  "selectorMatch str =
     (if 2 \<le> length str \<and> hd str = CHR ''@'' \<and> hd (tl str) \<in> set ''parse'' then
        (let rest = drop 2 str in
         if rest = [] then Some (take 2 str, None)
         else if 2 \<le> length rest \<and> hd rest = CHR ''['' \<and> last rest = CHR '']'' \<and>
                 noLineTerminator (inner rest)
           then Some (take 2 str, Some (inner rest))
         else None)
      else None)"

text \<open>\<^verbatim>\<open>str.match(/^\[(.*?)\]$/)\<close>\<close>

definition argsOnlyMatch :: "string \<Rightarrow> string option" where
  "argsOnlyMatch str =
     (if 2 \<le> length str \<and> hd str = CHR ''['' \<and> last str = CHR '']'' \<and> noLineTerminator (inner str)
        then Some (inner str)
      else None)"

definition parseSelectorString :: "source_file \<Rightarrow> runtime \<Rightarrow> 'e selector \<Rightarrow> 'e selector" where
  "parseSelectorString src rt s =
     (case selectorMatch (selectorString s) of
        None \<Rightarrow>
          (let s1 = warn (InvalidSelectorFormat (selectorString s)) s in
           if CHR ''['' \<notin> set (selectorString s) then s1
           else
             (case argsOnlyMatch (selectorString s) of
                None \<Rightarrow> s1
              | Some argsString \<Rightarrow>
                  (let s2 = s1\<lparr>targetSelectorSymbol := ''@e''\<rparr> in
                   if argsString \<noteq> [] then parseArguments src rt argsString s2 else s2)))
      | Some (symbol, argsGroup) \<Rightarrow>
          (let s1 = s\<lparr>targetSelectorSymbol := symbol\<rparr> in
           case argsGroup of
             None \<Rightarrow> s1
           | Some argsString \<Rightarrow>
               if argsString \<noteq> [] then parseArguments src rt argsString s1 else s1))"

text \<open>
  The constructor. \<open>executorLocation\<close> is \<^verbatim>\<open>executor?.location\<close>, read from the host when
  an executor is given.
\<close>

definition newEntitySelector ::
  "source_file \<Rightarrow> runtime \<Rightarrow> string \<Rightarrow> vector3 option \<Rightarrow> 'e option \<Rightarrow> ('e \<Rightarrow> vector3) \<Rightarrow> 'e selector" where
  "newEntitySelector src rt str executionLoc exec executorLocation =
     parseSelectorString src rt
       \<lparr>selectorString = str,
        executionLocation =
          (case executionLoc of Some l \<Rightarrow> Some l | None \<Rightarrow> map_option executorLocation exec),
        executor = exec,
        targetSelectorSymbol = ''@e'',
        queryOptions = no_options,
        hasItemFilters = [],
        console = []\<rparr>"

section \<open>Evaluation\<close>

text \<open>
  The host, and the methods of the class that only read it. \<open>dimensionGetEntities\<close> is
  \<^verbatim>\<open>this.executionDimension.getEntities(options)\<close>; \<open>entityLocation\<close> is
  \<^verbatim>\<open>entity.location\<close>. The other four are \<^verbatim>\<open>_matchesManualFilters\<close>,
  \<^verbatim>\<open>_matchesScoreFilters\<close>, \<^verbatim>\<open>_checkSingleEntityHasItem\<close> and
  \<^verbatim>\<open>_checkExecutorMatchesBaseQuery\<close>: each returns a boolean computed from the entity's
  components and its arguments, assigns no field of \<^verbatim>\<open>this\<close> and changes none of its
  arguments, so each is a predicate here and the properties below hold for every one.
  \<open>roundedSum\<close> is the engine's addition of two finite doubles, as \<^const>\<open>js_add\<close> reads it.
\<close>

record 'e host =
  dimensionGetEntities :: "query_options \<Rightarrow> 'e list"
  entityLocation :: "'e \<Rightarrow> vector3"
  matchesManualFilters :: "'e \<Rightarrow> query_options \<Rightarrow> bool"
  matchesScoreFilters :: "'e \<Rightarrow> scoreFilter list \<Rightarrow> bool"
  checkSingleEntityHasItem :: "'e \<Rightarrow> hasItemFilter \<Rightarrow> bool"
  checkExecutorMatchesBaseQuery :: "'e \<Rightarrow> query_options \<Rightarrow> bool"
  roundedSum :: "real \<Rightarrow> real \<Rightarrow> real option"

text \<open>
  A result of \<^verbatim>\<open>Math.random()\<close>: a number of the interval from 0 (included) to 1
  (excluded). An evaluation receives the results of its calls as a sequence.
\<close>

typedef unit_draw = "{r::real. 0 \<le> r \<and> r < 1}"
  by (rule exI [of _ 0]) simp

text \<open>\<^verbatim>\<open>Math.floor(Math.random() * n)\<close>\<close>

definition randomIndex :: "unit_draw \<Rightarrow> nat \<Rightarrow> nat" where
  "randomIndex d n = nat \<lfloor>Rep_unit_draw d * real n\<rfloor>"

text \<open>
  \<^verbatim>\<open>for (let i = 0; i < count && pool.length > 0; i++)
      result.push(pool.splice(Math.floor(Math.random() * pool.length), 1)[0]);\<close>
  with \<open>i\<close> and the number of rounds left. The index is below the length, so the
  \<^verbatim>\<open>splice\<close> always removes one element; the last case is never reached.
\<close>

fun sampleLoop :: "(nat \<Rightarrow> unit_draw) \<Rightarrow> nat \<Rightarrow> nat \<Rightarrow> 'e list \<Rightarrow> 'e list \<Rightarrow> 'e list" where
  "sampleLoop rnd i 0 pool result = result"
| "sampleLoop rnd i (Suc n) pool result =
     (if pool = [] then result
      else
        (case drop (randomIndex (rnd i) (length pool)) pool of
           e # after \<Rightarrow>
             sampleLoop rnd (Suc i) n (take (randomIndex (rnd i) (length pool)) pool @ after) (result @ [e])
         | [] \<Rightarrow> result))"

text \<open>
  The number of rounds of that loop for a Number \<open>count\<close> and a pool of \<open>poolSize\<close>
  elements: the number of \<open>i = 0, 1, ...\<close> below \<open>count\<close>; none when \<open>count\<close> is NaN, since
  every comparison with NaN is false; and as many as the pool has elements when \<open>count\<close>
  is infinite, since the pool is empty after them.
\<close>

fun loopRounds :: "jsnum \<Rightarrow> nat \<Rightarrow> nat" where
  "loopRounds (Num r) poolSize = nat \<lceil>r\<rceil>"
| "loopRounds PosInf poolSize = poolSize"
| "loopRounds count poolSize = 0"

text \<open>
  \<^verbatim>\<open>_isWithinVolume\<close> of part_000, with the addition of the engine.
\<close>

definition isWithinVolume ::
  "(real \<Rightarrow> real \<Rightarrow> real option) \<Rightarrow> vector3 \<Rightarrow> vector3 \<Rightarrow> vector3 \<Rightarrow> bool" where
  "isWithinVolume rs entityLoc volumeBaseLocation volumeDelta =
     (let x1 = vec_x volumeBaseLocation;
          y1 = vec_y volumeBaseLocation;
          z1 = vec_z volumeBaseLocation;
          x2 = js_add rs x1 (vec_x volumeDelta);
          y2 = js_add rs y1 (vec_y volumeDelta);
          z2 = js_add rs z1 (vec_z volumeDelta);
          minX = js_min x1 x2;
          maxX = js_max x1 x2;
          minY = js_min y1 y2;
          maxY = js_max y1 y2;
          minZ = js_min z1 z2;
          maxZ = js_max z1 z2;
          effectiveMaxX = (if vec_x volumeDelta = Num 0 then js_add rs minX (Num 1) else maxX);
          effectiveMaxY = (if vec_y volumeDelta = Num 0 then js_add rs minY (Num 1) else maxY);
          effectiveMaxZ = (if vec_z volumeDelta = Num 0 then js_add rs minZ (Num 1) else maxZ)
      in js_ge (vec_x entityLoc) minX \<and> js_lt (vec_x entityLoc) effectiveMaxX \<and>
         js_ge (vec_y entityLoc) minY \<and> js_lt (vec_y entityLoc) effectiveMaxY \<and>
         js_ge (vec_z entityLoc) minZ \<and> js_lt (vec_z entityLoc) effectiveMaxZ)"

text \<open>
  \<^verbatim>\<open>_filterByVolume\<close> of src/EntitySelectorParser.ts: first the test its callback
  makes of one entity's location \<open>el\<close>, then the filter.
\<close>

definition filterByVolumeTest ::
  "(real \<Rightarrow> real \<Rightarrow> real option) \<Rightarrow> vector3 \<Rightarrow> vector3 \<Rightarrow> vector3 \<Rightarrow> bool" where
  "filterByVolumeTest rs el loc vol =
     (let minX = js_min (vec_x loc) (js_add rs (vec_x loc) (vec_x vol));
          maxX = js_max (vec_x loc) (js_add rs (vec_x loc) (vec_x vol));
          minY = js_min (vec_y loc) (js_add rs (vec_y loc) (vec_y vol));
          maxY = js_max (vec_y loc) (js_add rs (vec_y loc) (vec_y vol));
          minZ = js_min (vec_z loc) (js_add rs (vec_z loc) (vec_z vol));
          maxZ = js_max (vec_z loc) (js_add rs (vec_z loc) (vec_z vol));
          effectiveMaxX = (if vec_x vol = Num 0 then js_add rs minX (Num 1) else maxX);
          effectiveMaxY = (if vec_y vol = Num 0 then js_add rs minY (Num 1) else maxY);
          effectiveMaxZ = (if vec_z vol = Num 0 then js_add rs minZ (Num 1) else maxZ)
      in js_ge (vec_x el) minX \<and> js_lt (vec_x el) effectiveMaxX \<and>
         js_ge (vec_y el) minY \<and> js_lt (vec_y el) effectiveMaxY \<and>
         js_ge (vec_z el) minZ \<and> js_lt (vec_z el) effectiveMaxZ)"

definition filterByVolume :: "'e host \<Rightarrow> 'e list \<Rightarrow> vector3 \<Rightarrow> vector3 \<Rightarrow> 'e list" where
  "filterByVolume h entities loc vol =
     filter (\<lambda>entity. filterByVolumeTest (roundedSum h) (entityLocation h entity) loc vol) entities"

text \<open>
  What \<^verbatim>\<open>getEntities\<close> works on: the object (\<^verbatim>\<open>this\<close>), the per-call copy of its
  query options (\<^verbatim>\<open>baseQuery\<close> in src/EntitySelectorParser.ts, \<^verbatim>\<open>currentQuery\<close> in
  part_000) and the local \<^verbatim>\<open>entities\<close>. The copy \<^verbatim>\<open>{ ...this.queryOptions }\<close> is
  shallow, and every write that follows assigns or deletes a property of the copy itself.
\<close>

record 'e frame =
  fr_this :: "'e selector"
  fr_query :: query_options
  fr_entities :: "'e list"

text \<open>\<^verbatim>\<open>this.queryOptions.closest || 1\<close>\<close>

definition closestOrOne :: "query_options \<Rightarrow> jsnum" where
  "closestOrOne q =
     (case closest q of None \<Rightarrow> Num 1 | Some n \<Rightarrow> if n = Num 0 \<or> n = NaN then Num 1 else n)"

text \<open>\<^verbatim>\<open>x && x.length > 0\<close> for \<^verbatim>\<open>scoreOptions\<close>\<close>

definition activeScoreOptions :: "query_options \<Rightarrow> scoreFilter list" where
  "activeScoreOptions q = (case scoreOptions q of None \<Rightarrow> [] | Some fs \<Rightarrow> fs)"

definition scoreFiltered :: "'e host \<Rightarrow> query_options \<Rightarrow> 'e list \<Rightarrow> 'e list" where
  "scoreFiltered h q es =
     (if activeScoreOptions q \<noteq> []
        then filter (\<lambda>e. matchesScoreFilters h e (activeScoreOptions q)) es
      else es)"

text \<open>A string is falsy when it is undefined or empty.\<close>

definition falsy :: "string option \<Rightarrow> bool" where
  "falsy v \<longleftrightarrow> v = None \<or> v = Some []"

text \<open>The \<^verbatim>\<open>switch (this.targetSelectorSymbol)\<close> of src/EntitySelectorParser.ts.\<close>

definition switch_EntitySelectorParser_ts :: "'e host \<Rightarrow> (nat \<Rightarrow> unit_draw) \<Rightarrow> 'e frame \<Rightarrow> 'e frame" where
  "switch_EntitySelectorParser_ts h rnd f =
     (let this = fr_this f; baseQuery = fr_query f in
      if targetSelectorSymbol this = ''@s'' then
        (case executor this of
           Some ex \<Rightarrow> f\<lparr>fr_entities := filter (\<lambda>e. matchesManualFilters h e (queryOptions this)) [ex]\<rparr>
         | None \<Rightarrow> f\<lparr>fr_this := warn SelfNeedsExecutor this\<rparr>)
      else if targetSelectorSymbol this = ''@p'' then
        (let bq = baseQuery
               \<lparr>qtype := Some ''minecraft:player'',
                location := (case executionLocation this of Some l \<Rightarrow> Some l | None \<Rightarrow> location baseQuery),
                closest := Some (closestOrOne (queryOptions this))\<rparr>
         in f\<lparr>fr_query := bq, fr_entities := dimensionGetEntities h bq\<rparr>)
      else if targetSelectorSymbol this = ''@a'' then
        (let bq = baseQuery\<lparr>qtype := Some ''minecraft:player''\<rparr>
         in f\<lparr>fr_query := bq, fr_entities := dimensionGetEntities h bq\<rparr>)
      else if targetSelectorSymbol this = ''@r'' then
        (let bq = (if falsy (qtype baseQuery) then baseQuery\<lparr>qtype := Some ''minecraft:player''\<rparr> else baseQuery);
             allMatching = scoreFiltered h (queryOptions this) (dimensionGetEntities h bq)
         in f\<lparr>fr_query := bq,
              fr_entities :=
                sampleLoop rnd 0 (loopRounds (closestOrOne (queryOptions this)) (length allMatching))
                  allMatching (fr_entities f)\<rparr>)
      else
        f\<lparr>fr_entities := scoreFiltered h (queryOptions this) (dimensionGetEntities h baseQuery)\<rparr>)"

text \<open>
  \<^verbatim>\<open>getEntities\<close> of src/EntitySelectorParser.ts: the entities returned and the object
  as the call leaves it.
\<close>

definition getEntities_EntitySelectorParser_ts ::
  "'e host \<Rightarrow> (nat \<Rightarrow> unit_draw) \<Rightarrow> 'e selector \<Rightarrow> 'e list \<times> 'e selector" where
  "getEntities_EntitySelectorParser_ts h rnd this0 =
     (let f0 = \<lparr>fr_this = this0, fr_query = (queryOptions this0)\<lparr>scoreOptions := None\<rparr>, fr_entities = []\<rparr>;
          f1 = switch_EntitySelectorParser_ts h rnd f0;
          f2 = (case (volume (queryOptions (fr_this f1)), location (queryOptions (fr_this f1))) of
                  (Some vol, Some loc) \<Rightarrow> f1\<lparr>fr_entities := filterByVolume h (fr_entities f1) loc vol\<rparr>
                | _ \<Rightarrow> f1);
          f3 = (if hasItemFilters (fr_this f2) \<noteq> []
                  then f2\<lparr>fr_entities :=
                         filter (\<lambda>entity. list_all (checkSingleEntityHasItem h entity) (hasItemFilters (fr_this f2)))
                           (fr_entities f2)\<rparr>
                else f2)
      in (fr_entities f3, fr_this f3))"

text \<open>\<^verbatim>\<open>queryForS\<close> of part_000: fifteen properties of \<^verbatim>\<open>currentQuery\<close>.\<close>

definition queryForS :: "query_options \<Rightarrow> query_options" where
  "queryForS currentQuery =
     no_options
       \<lparr>qtype := qtype currentQuery,
        excludeTypes := excludeTypes currentQuery,
        qname := qname currentQuery,
        tags := tags currentQuery,
        excludeTags := excludeTags currentQuery,
        families := families currentQuery,
        excludeFamilies := excludeFamilies currentQuery,
        gameMode := gameMode currentQuery,
        minLevel := minLevel currentQuery,
        maxLevel := maxLevel currentQuery,
        scoreOptions := scoreOptions currentQuery,
        minHorizontalRotation := minHorizontalRotation currentQuery,
        maxHorizontalRotation := maxHorizontalRotation currentQuery,
        minVerticalRotation := minVerticalRotation currentQuery,
        maxVerticalRotation := maxVerticalRotation currentQuery\<rparr>"

definition hasItemFiltered :: "'e host \<Rightarrow> hasItemFilter list \<Rightarrow> 'e list \<Rightarrow> 'e list" where
  "hasItemFiltered h fs es =
     (if fs \<noteq> [] then filter (\<lambda>e. list_all (checkSingleEntityHasItem h e) fs) es else es)"

text \<open>The \<^verbatim>\<open>@s\<close> block of part_000, which returns.\<close>

definition selfBlock :: "'e host \<Rightarrow> 'e frame \<Rightarrow> 'e frame" where
  "selfBlock h f =
     (let this = fr_this f; currentQuery = fr_query f in
      case executor this of
        None \<Rightarrow> f\<lparr>fr_this := warn SelfNeedsExecutor this\<rparr>
      | Some ex \<Rightarrow>
          if checkExecutorMatchesBaseQuery h ex (queryForS currentQuery) then
            (let executorArray = hasItemFiltered h (hasItemFilters this) [ex] in
             case (volume currentQuery, location currentQuery) of
               (Some volumeForS, Some locationForS) \<Rightarrow>
                 if \<not> isWithinVolume (roundedSum h) (entityLocation h ex) locationForS volumeForS
                   then f\<lparr>fr_entities := []\<rparr>
                 else f\<lparr>fr_entities := executorArray\<rparr>
             | _ \<Rightarrow> f\<lparr>fr_entities := executorArray\<rparr>)
          else f)"

text \<open>The condition under which part_000 fills in \<^verbatim>\<open>currentQuery.location\<close>.\<close>

definition needsLocation :: "query_options \<Rightarrow> bool" where
  "needsLocation q \<longleftrightarrow>
     location q = None \<and>
     (minDistance q \<noteq> None \<or> maxDistance q \<noteq> None \<or> closest q \<noteq> None \<or> farthest q \<noteq> None \<or>
      volume q \<noteq> None \<or> minHorizontalRotation q \<noteq> None \<or> maxHorizontalRotation q \<noteq> None \<or>
      minVerticalRotation q \<noteq> None \<or> maxVerticalRotation q \<noteq> None)"

text \<open>The overrides of part_000 by symbol.\<close>

definition symbolOverrides :: "'e selector \<Rightarrow> query_options \<Rightarrow> query_options" where
  "symbolOverrides this currentQuery =
     (if targetSelectorSymbol this = ''@p''
        then currentQuery\<lparr>qtype := Some ''minecraft:player'', closest := Some (closestOrOne (queryOptions this))\<rparr>
      else if targetSelectorSymbol this = ''@a''
        then currentQuery\<lparr>qtype := Some ''minecraft:player''\<rparr>
      else if targetSelectorSymbol this = ''@r''
        then (if falsy (qtype currentQuery) \<and> families currentQuery = None \<and> tags currentQuery = None \<and>
                 falsy (qname currentQuery)
                then currentQuery\<lparr>qtype := Some ''minecraft:player''\<rparr>
              else currentQuery)\<lparr>closest := None, farthest := None\<rparr>
      else currentQuery)"

text \<open>
  \<^verbatim>\<open>Math.max(1, Math.abs(this.queryOptions.closest ?? this.queryOptions.farthest ?? 1))\<close>
\<close>

definition sampleCount :: "query_options \<Rightarrow> jsnum" where
  "sampleCount q =
     js_max (Num 1)
       (js_abs (case closest q of Some n \<Rightarrow> n | None \<Rightarrow> (case farthest q of Some n \<Rightarrow> n | None \<Rightarrow> Num 1)))"

text \<open>\<^verbatim>\<open>getEntities\<close> of part_000.\<close>

definition getEntities_part_000 ::
  "'e host \<Rightarrow> (nat \<Rightarrow> unit_draw) \<Rightarrow> 'e selector \<Rightarrow> 'e list \<times> 'e selector" where
  "getEntities_part_000 h rnd this0 =
     (let f0 = \<lparr>fr_this = this0, fr_query = queryOptions this0, fr_entities = []\<rparr> in
      if targetSelectorSymbol (fr_this f0) = ''@s'' then
        (let f1 = selfBlock h f0 in (fr_entities f1, fr_this f1))
      else
        (let f1 = (if needsLocation (fr_query f0)
                     then (case executionLocation (fr_this f0) of
                             Some l \<Rightarrow> f0\<lparr>fr_query := (fr_query f0)\<lparr>location := Some l\<rparr>\<rparr>
                           | None \<Rightarrow> f0)
                   else f0);
             f2 = f1\<lparr>fr_query := symbolOverrides (fr_this f1) (fr_query f1)\<rparr>;
             f3 = f2\<lparr>fr_entities := dimensionGetEntities h (fr_query f2)\<rparr>;
             f4 = f3\<lparr>fr_entities := hasItemFiltered h (hasItemFilters (fr_this f3)) (fr_entities f3)\<rparr>;
             f5 = (if targetSelectorSymbol (fr_this f4) = ''@r'' \<and> fr_entities f4 \<noteq> []
                     then f4\<lparr>fr_entities :=
                            sampleLoop rnd 0
                              (loopRounds (sampleCount (queryOptions (fr_this f4))) (length (fr_entities f4)))
                              (fr_entities f4) []\<rparr>
                   else f4)
         in (fr_entities f5, fr_this f5)))"

section \<open>Notions in which the properties are stated\<close>

text \<open>
  The state of the tokenizer loop after it has read the prefix \<open>p\<close> of its input: both
  counters are the depths of \<open>p\<close>, the tokens pushed are the trimmed pieces of \<open>p\<close>
  but the last, and \<^verbatim>\<open>currentArg\<close> is the last piece.
\<close>

definition tok_inv :: "string \<Rightarrow> string list \<Rightarrow> string \<Rightarrow> int \<Rightarrow> int \<Rightarrow> bool" where
  "tok_inv p args cur b q \<longleftrightarrow>
     b = depth (CHR ''{'') (CHR ''}'') p \<and> q = depth (CHR ''['') (CHR '']'') p \<and>
     args = map trim (butlast (pieces 0 (cut_points p) p)) \<and>
     cur = last (pieces 0 (cut_points p) p)"

text \<open>
  The argument \<open>key=value\<close> that a token stands for: the key and the value that reach the
  \<^verbatim>\<open>switch\<close>, or nothing for an empty token and for a token with an empty key.
\<close>

definition keyValue :: "string \<Rightarrow> (string \<times> string) option" where
  "keyValue arg =
     (if arg = [] \<or> hd (split_on (CHR ''='') arg) = [] then None
      else Some (trim (hd (split_on (CHR ''='') arg)),
                 stripQuotes (trim (join_with ''='' (tl (split_on (CHR ''='') arg))))))"

text \<open>
  The origin after a run of \<open>x\<close>, \<open>y\<close>, \<open>z\<close> arguments, as the specification words it: the
  first one starts from the context location, and each one overwrites its own axis.
\<close>

fun originAfter :: "vector3 \<Rightarrow> vector3 option \<Rightarrow> (string \<times> jsnum) list \<Rightarrow> vector3 option" where
  "originAfter ctx cur [] = cur"
| "originAfter ctx cur ((axis, n) # rest) =
     originAfter ctx (Some (setAxis axis n (case cur of None \<Rightarrow> ctx | Some l \<Rightarrow> l))) rest"

definition isAxisKey :: "string \<Rightarrow> bool" where
  "isAxisKey k \<longleftrightarrow> k = ''x'' \<or> k = ''y'' \<or> k = ''z''"

text \<open>The \<open>x\<close>, \<open>y\<close>, \<open>z\<close> arguments among the tokens, in order, each with its parsed value.\<close>

definition axisArguments :: "runtime \<Rightarrow> string list \<Rightarrow> (string \<times> jsnum) list" where
  "axisArguments rt args =
     map (\<lambda>(k, v). (k, parseFloat rt v)) (filter (\<lambda>(k, v). isAxisKey k) (List.map_filter keyValue args))"

text \<open>The values of the \<open>type\<close> arguments among the tokens, in order.\<close>

definition typeValues :: "string list \<Rightarrow> string list" where
  "typeValues args = map snd (filter (\<lambda>(k, v). k = ''type'') (List.map_filter keyValue args))"

text \<open>Of such values, the excluded types and the positive types.\<close>

definition negatedTypes :: "string list \<Rightarrow> string list" where
  "negatedTypes vs = map (drop 1) (filter (\<lambda>v. startsWith v ''!'') vs)"

definition positiveTypes :: "string list \<Rightarrow> string list" where
  "positiveTypes vs = filter (\<lambda>v. \<not> startsWith v ''!'') vs"

text \<open>
  One axis of the box of the volume filter: from the origin to the origin plus the extent,
  closed below and open above, and one unit long when the extent is zero.
\<close>

definition inAxis :: "real \<Rightarrow> real \<Rightarrow> real \<Rightarrow> bool" where
  "inAxis p org ext \<longleftrightarrow>
     (if ext = 0 then org \<le> p \<and> p < org + 1
      else min org (org + ext) \<le> p \<and> p < max org (org + ext))"

definition vec :: "real \<Rightarrow> real \<Rightarrow> real \<Rightarrow> vector3" where
  "vec a b c = \<lparr>vec_x = Num a, vec_y = Num b, vec_z = Num c\<rparr>"

text \<open>
  What the code computes on one axis: the same interval with the sum, and the unit added
  to a zero extent, as the engine adds them; and the axes on which that sum is the sum of
  the reals.
\<close>

definition inComputedAxis :: "(real \<Rightarrow> real \<Rightarrow> real option) \<Rightarrow> jsnum \<Rightarrow> jsnum \<Rightarrow> jsnum \<Rightarrow> bool" where
  "inComputedAxis rs p org ext \<longleftrightarrow>
     (if ext = Num 0 then js_ge p org \<and> js_lt p (js_add rs org (Num 1))
      else js_ge p (js_min org (js_add rs org ext)) \<and> js_lt p (js_max org (js_add rs org ext)))"

definition exactAxis :: "(real \<Rightarrow> real \<Rightarrow> real option) \<Rightarrow> real \<Rightarrow> real \<Rightarrow> bool" where
  "exactAxis rs org ext \<longleftrightarrow>
     js_add rs (Num org) (Num (if ext = 0 then 1 else ext)) = Num (org + (if ext = 0 then 1 else ext))"

text \<open>
  The double nearest to a real, as IEEE 754 rounds (to nearest, ties to the even
  significand; \<open>None\<close>: the magnitude overflows). \<open>binade r\<close> is the exponent \<open>e\<close> with
  \<open>2 ^ e \<le> \<bar>r\<bar> < 2 ^ (e + 1)\<close>; the doubles of that magnitude are the multiples of
  \<open>2 ^ (e - 52)\<close>, and of \<open>2 ^ (- 1074)\<close> below \<open>2 ^ (- 1022)\<close>.
\<close>

definition pow2 :: "int \<Rightarrow> real" where
  "pow2 e = (if 0 \<le> e then 2 ^ nat e else 1 / 2 ^ nat (- e))"

definition binade :: "real \<Rightarrow> int" where
  "binade r =
     (if 1 \<le> \<bar>r\<bar> then int (floorlog 2 (nat \<lfloor>\<bar>r\<bar>\<rfloor>)) - 1
      else - int (floorlog 2 (nat \<lceil>1 / \<bar>r\<bar>\<rceil> - 1)))"

definition nearestDouble :: "real \<Rightarrow> real option" where
  "nearestDouble r =
     (if r = 0 then Some 0
      else
        (let ulp = pow2 (max (binade r) (- 1022) - 52);
             q = r / ulp;
             f = \<lfloor>q\<rfloor>;
             n = (if q - of_int f < 1 / 2 \<or> (q - of_int f = 1 / 2 \<and> even f) then f else f + 1)
         in if 2 ^ 1024 \<le> \<bar>of_int n * ulp\<bar> then None else Some (of_int n * ulp)))"

text \<open>The addition of IEEE 754 on two finite doubles.\<close>

definition ieeeSum :: "real \<Rightarrow> real \<Rightarrow> real option" where
  "ieeeSum a b = nearestDouble (a + b)"

text \<open>The integers rounded to the nearest double.\<close>

definition ieeeInteger :: "int \<Rightarrow> real option" where
  "ieeeInteger n = nearestDouble (real_of_int n)"

text \<open>
  A runtime for the examples: \<^verbatim>\<open>parseFloat\<close> on texts that begin with an integer, a
  \<^verbatim>\<open>JSON.parse\<close> that knows no text, and integers rounded to the nearest double.
\<close>

definition rt_int :: runtime where
  "rt_int = \<lparr>parseFloat = (\<lambda>s. case integerPrefix s of
                                     None \<Rightarrow> NaN
                                   | Some n \<Rightarrow>
                                       if \<bar>n\<bar> \<le> 2 ^ 53 then Num (real_of_int n)
                                       else (case ieeeInteger n of
                                               Some r \<Rightarrow> Num r
                                             | None \<Rightarrow> if n < 0 then NegInf else PosInf)),
             numberIsFinite = (\<lambda>s. False),
             JSON_parse = (\<lambda>s. None), toString = (\<lambda>v. []), jsonCompliantValue = (\<lambda>s. s),
             roundInteger = ieeeInteger\<rparr>"

text \<open>An object before any argument is read, with no context location and no executor.\<close>

definition blank :: "nat selector" where
  "blank =
     \<lparr>selectorString = [], executionLocation = None, executor = None, targetSelectorSymbol = ''@e'',
      queryOptions = no_options, hasItemFilters = [], console = []\<rparr>"

text \<open>
  A bare integer is an optional minus sign and then digits only. A text begins with an
  integer when, after white space and an optional sign, a digit comes. \<open>dec\<close> writes an
  integer in decimal.
\<close>

definition bare_integer :: "string \<Rightarrow> bool" where
  "bare_integer s \<longleftrightarrow>
     (let ds = (if s \<noteq> [] \<and> hd s = CHR ''-'' then tl s else s) in ds \<noteq> [] \<and> list_all is_digit ds)"


definition digit_char :: "nat \<Rightarrow> char" where
  "digit_char d = ''0123456789'' ! d"

fun dec_nat :: "nat \<Rightarrow> string" where
  "dec_nat n = (if n < 10 then [digit_char n] else dec_nat (n div 10) @ [digit_char (n mod 10)])"

definition dec :: "int \<Rightarrow> string" where
  "dec i = (if i < 0 then CHR ''-'' # dec_nat (nat (- i)) else dec_nat (nat i))"

declare dec_nat.simps [simp del]

text \<open>For the examples: a call of \<^verbatim>\<open>Math.random()\<close> that returns one half.\<close>

definition half :: unit_draw where
  "half = Abs_unit_draw (1 / 2)"

text \<open>
  A host with two entities, \<open>0\<close> and \<open>1\<close>, which every query returns in that order; only
  entity \<open>0\<close> satisfies an item condition. It adds as IEEE 754 does.
\<close>

definition host2 :: "nat host" where
  "host2 =
     \<lparr>dimensionGetEntities = (\<lambda>q. [0, 1]),
      entityLocation = (\<lambda>e. zeroVector),
      matchesManualFilters = (\<lambda>e q. True),
      matchesScoreFilters = (\<lambda>e fs. True),
      checkSingleEntityHasItem = (\<lambda>e f. e = 0),
      checkExecutorMatchesBaseQuery = (\<lambda>e q. True),
      roundedSum = ieeeSum\<rparr>"

text \<open>A runtime whose \<^verbatim>\<open>JSON.parse\<close> knows the one text \<^verbatim>\<open>{"item":"apple"}\<close>.\<close>

definition rt_json :: runtime where
  "rt_json =
     \<lparr>parseFloat = parseFloat rt_int, numberIsFinite = (\<lambda>s. False),
      JSON_parse = (\<lambda>s. if s = ''{\"item\":\"apple\"}'' then Some (JObject [(''item'', JString ''apple'')]) else None),
      toString = (\<lambda>v. []), jsonCompliantValue = (\<lambda>s. s),
      roundInteger = roundInteger rt_int\<rparr>"

text \<open>The filter both files build from the item condition with \<open>item\<close> = \<open>apple\<close>.\<close>

definition appleFilter :: hasItemFilter where
  "appleFilter =
     \<lparr>hi_item = Some ''apple'', hi_quantity = Some \<lparr>rmin = Some (Num 1), rmax = None\<rparr>,
      hi_data = None, hi_location = None, hi_slot = None\<rparr>"

text \<open>
  In part_000, the entities that the query of an evaluation returns and that pass the item
  conditions: the pool from which \<open>@r\<close> draws.
\<close>

definition matchingPool :: "'e host \<Rightarrow> 'e selector \<Rightarrow> 'e list" where
  "matchingPool h s =
     hasItemFiltered h (hasItemFilters s)
       (dimensionGetEntities h
          (symbolOverrides s
             (if needsLocation (queryOptions s)
                then (case executionLocation s of
                        Some l \<Rightarrow> (queryOptions s)\<lparr>location := Some l\<rparr>
                      | None \<Rightarrow> queryOptions s)
              else queryOptions s)))"

section \<open>The tokenizer splits at the top-level commas\<close>


lemma pieces_nonempty: "pieces a ps s \<noteq> []"
  by (cases ps) simp_all

lemma depth_snoc:
  "depth opening closing (p @ [x]) =
     depth opening closing p + (if x = opening then 1 else 0) - (if x = closing then 1 else 0)"
  by (simp add: depth_def)

lemma top_level_comma_prefix:
  "i < length p \<Longrightarrow> top_level_comma (p @ [x]) i = top_level_comma p i"
  by (simp add: top_level_comma_def nth_append)

lemma top_level_comma_end:
  "top_level_comma (p @ [x]) (length p) \<longleftrightarrow>
     x = CHR '','' \<and> depth (CHR ''{'') (CHR ''}'') p = 0 \<and> depth (CHR ''['') (CHR '']'') p = 0"
  by (simp add: top_level_comma_def)

lemma cut_points_snoc:
  "cut_points (p @ [x]) =
     cut_points p @ (if top_level_comma (p @ [x]) (length p) then [length p] else [])"
proof -
  have "filter (top_level_comma (p @ [x])) [0..<length p] = filter (top_level_comma p) [0..<length p]"
    by (rule filter_cong) (simp_all add: top_level_comma_prefix)
  then show ?thesis by (simp add: cut_points_def)
qed

lemma cut_points_bound: "i \<in> set (cut_points p) \<Longrightarrow> i < length p"
  by (simp add: cut_points_def)

lemma cut_points_sorted: "sorted_wrt (<) (cut_points p)"
  by (simp add: cut_points_def sorted_wrt_filter)

lemma pieces_snoc_plain:
  "a \<le> length p \<Longrightarrow> sorted_wrt (<) ps \<Longrightarrow> \<forall>i \<in> set ps. a \<le> i \<and> i < length p \<Longrightarrow>
   pieces a ps (p @ [x]) = butlast (pieces a ps p) @ [last (pieces a ps p) @ [x]]"
proof (induction ps arbitrary: a)
  case Nil
  then show ?case by simp
next
  case (Cons i ps)
  have "pieces (Suc i) ps (p @ [x]) = butlast (pieces (Suc i) ps p) @ [last (pieces (Suc i) ps p) @ [x]]"
    using Cons.prems by (intro Cons.IH) auto
  with Cons.prems show ?case by (simp add: pieces_nonempty)
qed

lemma pieces_snoc_cut:
  "a \<le> length p \<Longrightarrow> sorted_wrt (<) ps \<Longrightarrow> \<forall>i \<in> set ps. a \<le> i \<and> i < length p \<Longrightarrow>
   pieces a (ps @ [length p]) (p @ [x]) = pieces a ps p @ [[]]"
proof (induction ps arbitrary: a)
  case Nil
  then show ?case by simp
next
  case (Cons i ps)
  have "pieces (Suc i) (ps @ [length p]) (p @ [x]) = pieces (Suc i) ps p @ [[]]"
    using Cons.prems by (intro Cons.IH) auto
  with Cons.prems show ?case by simp
qed

lemma pieces_cut_points_snoc_plain:
  "\<not> top_level_comma (p @ [x]) (length p) \<Longrightarrow>
   pieces 0 (cut_points (p @ [x])) (p @ [x]) =
     butlast (pieces 0 (cut_points p) p) @ [last (pieces 0 (cut_points p) p) @ [x]]"
  by (simp add: cut_points_snoc pieces_snoc_plain cut_points_sorted cut_points_bound)

lemma pieces_cut_points_snoc_cut:
  "top_level_comma (p @ [x]) (length p) \<Longrightarrow>
   pieces 0 (cut_points (p @ [x])) (p @ [x]) = pieces 0 (cut_points p) p @ [[]]"
  by (simp add: cut_points_snoc pieces_snoc_cut cut_points_sorted cut_points_bound)

lemma map_butlast_snoc: "xs \<noteq> [] \<Longrightarrow> map f (butlast xs) @ [f (last xs)] = map f xs"
  by (metis append_butlast_last_id list.simps(8,9) map_append)

lemma tokenizeLoop_inv:
  "tok_inv p args cur b q \<Longrightarrow>
   tokenizeLoop cs args cur b q = map trim (pieces 0 (cut_points (p @ cs)) (p @ cs))"
proof (induction cs arbitrary: p args cur b q)
  case Nil
  then show ?case
    by (simp add: tok_inv_def map_butlast_snoc pieces_nonempty)
next
  case (Cons c cs)
  let ?P = "pieces 0 (cut_points p) p"
  have step: "\<And>args' cur' b' q'. tok_inv (p @ [c]) args' cur' b' q' \<Longrightarrow>
      tokenizeLoop cs args' cur' b' q' = map trim (pieces 0 (cut_points (p @ c # cs)) (p @ c # cs))"
    using Cons.IH [of "p @ [c]"] by simp
  show ?case
  proof (cases "top_level_comma (p @ [c]) (length p)")
    case True
    then have c: "c = CHR '',''" and b: "b = 0" and q: "q = 0"
      using Cons.prems by (simp_all add: top_level_comma_end tok_inv_def)
    have "tok_inv (p @ [c]) (args @ [trim cur]) [] b q"
      using Cons.prems True
      by (simp add: tok_inv_def pieces_cut_points_snoc_cut depth_snoc c map_butlast_snoc pieces_nonempty)
    from step [OF this] show ?thesis by (simp add: c b q)
  next
    case False
    have inv: "tok_inv (p @ [c]) args (cur @ [c])
        (b + (if c = CHR ''{'' then 1 else 0) - (if c = CHR ''}'' then 1 else 0))
        (q + (if c = CHR ''['' then 1 else 0) - (if c = CHR '']'' then 1 else 0))"
      using Cons.prems False
      by (simp add: tok_inv_def pieces_cut_points_snoc_plain depth_snoc)
    have nocut: "\<not> (c = CHR '','' \<and> b = 0 \<and> q = 0)"
      using False Cons.prems by (simp add: top_level_comma_end tok_inv_def)
    from step [OF inv] nocut show ?thesis by auto
  qed
qed

lemma tokenize_pieces: "tokenize s = map trim (pieces 0 (cut_points s) s)"
proof -
  have "tok_inv [] [] [] 0 0"
    by (simp add: tok_inv_def cut_points_def depth_def)
  from tokenizeLoop_inv [OF this, of s] show ?thesis by (simp add: tokenize_def)
qed

lemma dropWhile_trim: "dropWhile is_ws (trim s) = trim s"
proof (cases "trim s")
  case Nil
  then show ?thesis by simp
next
  case (Cons c cs)
  let ?u = "dropWhile is_ws s"
  have u: "?u = trim s @ rev (takeWhile is_ws (rev ?u))"
    unfolding trim_def
    by (metis rev_append rev_rev_ident takeWhile_dropWhile_id)
  have "?u \<noteq> []"
  proof
    assume "?u = []"
    then have "trim s = []" unfolding trim_def by (simp only: rev.simps dropWhile.simps)
    with Cons show False by simp
  qed
  then have "\<not> is_ws (hd ?u)" by (metis hd_dropWhile)
  moreover have "hd ?u = c" using u Cons by (metis hd_append2 list.sel(1) list.simps(3))
  ultimately show ?thesis using Cons by simp
qed

lemma trim_trim: "trim (trim s) = trim s"
proof -
  have "dropWhile is_ws (rev (trim s)) = rev (trim s)"
    by (simp add: trim_def)
  then show ?thesis
    by (simp add: dropWhile_trim trim_def [of "trim s"])
qed

lemma interpretAll_skip_empty:
  "interpretAll src rt (filter (\<lambda>arg. arg \<noteq> []) args) s = interpretAll src rt args s"
proof -
  have "foldl (\<lambda>st arg. parseArgument src rt arg st) s (filter (\<lambda>arg. arg \<noteq> []) args) =
        foldl (\<lambda>st arg. parseArgument src rt arg st) s args"
    by (induction args arbitrary: s) (simp_all add: parseArgument_def)
  then show ?thesis by (simp add: interpretAll_def)
qed

text \<open>
  C1. For every argument string, the tokenizer cuts it exactly at the commas before which
  the brace depth and the bracket depth are both zero, so a comma inside braces or
  brackets stays in its token; every token is trimmed of white space at both ends; and a
  token that is empty after trimming is skipped: the interpreter runs as if it were not
  in the list.
\<close>

theorem C1_tokenizer:
  "tokenize argsString = map trim (pieces 0 (cut_points argsString) argsString) \<and>
   map trim (tokenize argsString) = tokenize argsString \<and>
   parseArguments src rt argsString s =
     interpretAll src rt (filter (\<lambda>arg. arg \<noteq> []) (tokenize argsString)) s"
  by (simp add: tokenize_pieces trim_trim parseArguments_def interpretAll_skip_empty)

theorem C1_tokenizer_witness:
  "tokenize ''a=1, b={c,d} ,,e=[f,{g,h}]'' = [''a=1'', ''b={c,d}'', [], ''e=[f,{g,h}]'']"
proof -
  have "map trim (pieces 0 (cut_points ''a=1, b={c,d} ,,e=[f,{g,h}]'') ''a=1, b={c,d} ,,e=[f,{g,h}]'') =
        [''a=1'', ''b={c,d}'', [], ''e=[f,{g,h}]'']"
    by code_simp
  with C1_tokenizer [THEN conjunct1, of "''a=1, b={c,d} ,,e=[f,{g,h}]''"] show ?thesis
    by simp
qed

section \<open>Arguments and the fields they set\<close>


lemma parseArgument_keyValue:
  "parseArgument src rt arg s =
     (case keyValue arg of
        None \<Rightarrow> if arg = [] then s else warn (InvalidArgumentFormat arg) s
      | Some (k, v) \<Rightarrow> dispatch src rt k v s)"
  by (simp add: parseArgument_def keyValue_def Let_def)

lemma warn_fields [simp]:
  "queryOptions (warn w s) = queryOptions s"
  "hasItemFilters (warn w s) = hasItemFilters s"
  "executionLocation (warn w s) = executionLocation s"
  "executor (warn w s) = executor s"
  "targetSelectorSymbol (warn w s) = targetSelectorSymbol s"
  "selectorString (warn w s) = selectorString s"
  "console (warn w s) = console s @ [w]"
  by (simp_all add: warn_def)

lemma pushFilters_fields [simp]:
  "queryOptions (pushFilters src rt tv items s) = queryOptions s"
  "executionLocation (pushFilters src rt tv items s) = executionLocation s"
  "executor (pushFilters src rt tv items s) = executor s"
  "targetSelectorSymbol (pushFilters src rt tv items s) = targetSelectorSymbol s"
  "selectorString (pushFilters src rt tv items s) = selectorString s"
  by (induction items arbitrary: s; simp)+

lemma hasitem_A_fields [simp]:
  "queryOptions (hasitem_EntitySelectorParser_ts rt tv s) = queryOptions s"
  "executionLocation (hasitem_EntitySelectorParser_ts rt tv s) = executionLocation s"
  "executor (hasitem_EntitySelectorParser_ts rt tv s) = executor s"
  "targetSelectorSymbol (hasitem_EntitySelectorParser_ts rt tv s) = targetSelectorSymbol s"
  "selectorString (hasitem_EntitySelectorParser_ts rt tv s) = selectorString s"
  by (simp_all add: hasitem_EntitySelectorParser_ts_def Let_def split: option.splits json.splits)

lemma hasitem_B_fields [simp]:
  "queryOptions (hasitem_part_000 rt tv s) = queryOptions s"
  "executionLocation (hasitem_part_000 rt tv s) = executionLocation s"
  "executor (hasitem_part_000 rt tv s) = executor s"
  "targetSelectorSymbol (hasitem_part_000 rt tv s) = targetSelectorSymbol s"
  "selectorString (hasitem_part_000 rt tv s) = selectorString s"
  by (simp_all add: hasitem_part_000_def Let_def split: option.splits json.splits)

lemma countArgument_location [simp]: "location (countArgument rt v q) = location q"
  by (simp add: countArgument_def Let_def)

lemma scoresArgument_location [simp]: "location (scoresArgument rt v q) = location q"
  by (simp add: scoresArgument_def)

lemma dispatch_context [simp]:
  "executionLocation (dispatch src rt k v s) = executionLocation s"
  by (simp add: dispatch_def Let_def split: source_file.splits)

lemma dispatch_location_other:
  "\<not> isAxisKey k \<Longrightarrow> location (queryOptions (dispatch src rt k v s)) = location (queryOptions s)"
  by (simp add: dispatch_def isAxisKey_def Let_def split: source_file.splits)

lemma setAxis_initialLocation:
  "isAxisKey k \<Longrightarrow>
   setAxis k (parseFloat rt v) (initialLocation src rt k v s) = setAxis k (parseFloat rt v) (contextOrigin s)"
  by (cases src) (auto simp: initialLocation_def setAxis_def isAxisKey_def)

lemma dispatch_location_axis:
  "isAxisKey k \<Longrightarrow>
   location (queryOptions (dispatch src rt k v s)) =
     Some (setAxis k (parseFloat rt v)
             (case location (queryOptions s) of None \<Rightarrow> contextOrigin s | Some l \<Rightarrow> l))"
  using setAxis_initialLocation [of k rt v src s]
  by (auto simp: dispatch_def isAxisKey_def Let_def split: option.splits)

lemma interpretAll_snoc:
  "interpretAll src rt (args @ [arg]) s = parseArgument src rt arg (interpretAll src rt args s)"
  by (simp add: interpretAll_def)

lemma interpretAll_Nil: "interpretAll src rt [] s = s"
  by (simp add: interpretAll_def)

lemma parseArgument_context [simp]:
  "executionLocation (parseArgument src rt arg s) = executionLocation s"
  by (simp add: parseArgument_keyValue split: option.splits)

lemma interpretAll_context [simp]:
  "executionLocation (interpretAll src rt args s) = executionLocation s"
  by (induction args rule: rev_induct) (simp_all add: interpretAll_snoc interpretAll_Nil)

lemma originAfter_snoc:
  "originAfter ctx cur (as @ [(axis, n)]) =
     Some (setAxis axis n (case originAfter ctx cur as of None \<Rightarrow> ctx | Some l \<Rightarrow> l))"
  by (induction as arbitrary: cur) auto

lemma axisArguments_snoc:
  "axisArguments rt (args @ [arg]) =
     axisArguments rt args @
       (case keyValue arg of
          None \<Rightarrow> []
        | Some (k, v) \<Rightarrow> if isAxisKey k then [(k, parseFloat rt v)] else [])"
  by (simp add: axisArguments_def List.map_filter_def split: option.splits)

lemma axisArguments_Nil: "axisArguments rt [] = []"
  by (simp add: axisArguments_def List.map_filter_def)

lemma interpretAll_location:
  "location (queryOptions (interpretAll src rt args s)) =
     originAfter (contextOrigin s) (location (queryOptions s)) (axisArguments rt args)"
proof (induction args rule: rev_induct)
  case Nil
  then show ?case by (simp add: interpretAll_Nil axisArguments_Nil)
next
  case (snoc arg args)
  have ctx: "contextOrigin (interpretAll src rt args s) = contextOrigin s"
    by (simp add: contextOrigin_def)
  show ?case
  proof (cases "keyValue arg")
    case None
    then show ?thesis
      using snoc by (simp add: interpretAll_snoc parseArgument_keyValue axisArguments_snoc)
  next
    case (Some kv)
    obtain k v where kv: "kv = (k, v)" by (cases kv)
    show ?thesis
    proof (cases "isAxisKey k")
      case True
      then show ?thesis
        using snoc Some kv
        by (simp add: interpretAll_snoc parseArgument_keyValue axisArguments_snoc
            dispatch_location_axis originAfter_snoc ctx cong: option.case_cong)
    next
      case False
      then show ?thesis
        using snoc Some kv
        by (simp add: interpretAll_snoc parseArgument_keyValue axisArguments_snoc
            dispatch_location_other)
    qed
  qed
qed

lemma tokenize_y10: "tokenize ''y=10'' = [''y=10'']"
  by (simp add: tokenize_def trim_def is_ws_def)

lemma keyValue_y10: "keyValue ''y=10'' = Some (''y'', ''10'')"
  by (simp add: keyValue_def trim_def is_ws_def stripQuotes_def dquote_def)

lemma newEntitySelector_y10:
  "newEntitySelector src rt ''@e[y=10]'' loc exec el =
     parseArguments src rt ''y=10''
       \<lparr>selectorString = ''@e[y=10]'',
        executionLocation = (case loc of Some l \<Rightarrow> Some l | None \<Rightarrow> map_option el exec),
        executor = exec, targetSelectorSymbol = ''@e'', queryOptions = no_options,
        hasItemFilters = [], console = []\<rparr>"
  by (simp add: newEntitySelector_def parseSelectorString_def selectorMatch_def inner_def
      noLineTerminator_def)

text \<open>
  C3. The \<open>x\<close>, \<open>y\<close>, \<open>z\<close> arguments of a selector decide its origin: the first one starts
  from the execution-context location (zero on every axis when there is none) and sets
  its own axis to the parsed value, and each later one overwrites its own axis only; no
  other argument touches the origin. A selector with only \<open>y=10\<close> and context location
  \<open>(cx, cy, cz)\<close> gets the origin \<open>(cx, parseFloat "10", cz)\<close>.
\<close>

theorem C3_origin:
  "location (queryOptions (parseArguments src rt argsString s)) =
     originAfter (contextOrigin s) (location (queryOptions s)) (axisArguments rt (tokenize argsString)) \<and>
   location (queryOptions (newEntitySelector src rt ''@e[y=10]''
       (Some \<lparr>vec_x = cx, vec_y = cy, vec_z = cz\<rparr>) exec el)) =
     Some \<lparr>vec_x = cx, vec_y = parseFloat rt ''10'', vec_z = cz\<rparr> \<and>
   location (queryOptions (newEntitySelector src rt ''@e[y=10]'' None None el)) =
     Some \<lparr>vec_x = Num 0, vec_y = parseFloat rt ''10'', vec_z = Num 0\<rparr>"
  by (simp add: parseArguments_def interpretAll_location newEntitySelector_y10 tokenize_y10
      axisArguments_def List.map_filter_def keyValue_y10 isAxisKey_def contextOrigin_def
      no_options_def setAxis_def zeroVector_def)

theorem C3_origin_witness:
  "location (queryOptions (newEntitySelector part_000 rt_int ''@e[y=10]''
       (Some \<lparr>vec_x = Num 1, vec_y = Num 2, vec_z = Num 3\<rparr>) (None :: nat option) (\<lambda>e. zeroVector))) =
     Some \<lparr>vec_x = Num 1, vec_y = Num 10, vec_z = Num 3\<rparr>"
proof -
  have "parseFloat rt_int ''10'' = Num 10"
    by (simp add: rt_int_def integerPrefix_def is_ws_def is_digit_def digit_value_def)
  with C3_origin [THEN conjunct2, THEN conjunct1, of part_000 rt_int "Num 1" "Num 2" "Num 3"
      "None :: nat option" "\<lambda>e. zeroVector"]
  show ?thesis by simp
qed


lemma countArgument_type [simp]:
  "qtype (countArgument rt v q) = qtype q" "excludeTypes (countArgument rt v q) = excludeTypes q"
  by (simp_all add: countArgument_def Let_def)

lemma scoresArgument_type [simp]:
  "qtype (scoresArgument rt v q) = qtype q" "excludeTypes (scoresArgument rt v q) = excludeTypes q"
  by (simp_all add: scoresArgument_def)

lemma dispatch_type_other:
  "k \<noteq> ''type'' \<Longrightarrow> qtype (queryOptions (dispatch src rt k v s)) = qtype (queryOptions s)"
  "k \<noteq> ''type'' \<Longrightarrow> excludeTypes (queryOptions (dispatch src rt k v s)) = excludeTypes (queryOptions s)"
  by (simp_all add: dispatch_def Let_def split: source_file.splits)

lemma dispatch_type:
  "dispatch src rt ''type'' v s =
     (if startsWith v ''!''
        then s\<lparr>queryOptions := (queryOptions s)\<lparr>excludeTypes := pushTo (excludeTypes (queryOptions s)) (drop 1 v)\<rparr>\<rparr>
      else s\<lparr>queryOptions := (queryOptions s)\<lparr>qtype := Some v\<rparr>\<rparr>)"
  by (simp add: dispatch_def Let_def)

lemma typeValues_snoc:
  "typeValues (args @ [arg]) =
     typeValues args @
       (case keyValue arg of None \<Rightarrow> [] | Some (k, v) \<Rightarrow> if k = ''type'' then [v] else [])"
  by (simp add: typeValues_def List.map_filter_def split: option.splits)

lemma typeValues_Nil: "typeValues [] = []"
  by (simp add: typeValues_def List.map_filter_def)

lemma interpretAll_types:
  "qtype (queryOptions (interpretAll src rt args s)) =
     (if positiveTypes (typeValues args) = [] then qtype (queryOptions s)
      else Some (last (positiveTypes (typeValues args)))) \<and>
   excludeTypes (queryOptions (interpretAll src rt args s)) =
     (if negatedTypes (typeValues args) = [] then excludeTypes (queryOptions s)
      else Some ((case excludeTypes (queryOptions s) of None \<Rightarrow> [] | Some xs \<Rightarrow> xs) @
                 negatedTypes (typeValues args)))"
proof (induction args rule: rev_induct)
  case Nil
  then show ?case by (simp add: interpretAll_Nil typeValues_Nil positiveTypes_def negatedTypes_def)
next
  case (snoc arg args)
  show ?case
  proof (cases "keyValue arg")
    case None
    then show ?thesis
      using snoc by (simp add: interpretAll_snoc parseArgument_keyValue typeValues_snoc)
  next
    case (Some kv)
    obtain k v where kv: "kv = (k, v)" by (cases kv)
    show ?thesis
    proof (cases "k = ''type''")
      case False
      then show ?thesis
        using snoc Some kv
        by (simp add: interpretAll_snoc parseArgument_keyValue typeValues_snoc dispatch_type_other)
    next
      case True
      then show ?thesis
        using snoc Some kv
        by (auto simp add: interpretAll_snoc parseArgument_keyValue typeValues_snoc dispatch_type
            positiveTypes_def negatedTypes_def pushTo_def split: option.splits)
    qed
  qed
qed

lemma newEntitySelector_brackets:
  "noLineTerminator a \<Longrightarrow> a \<noteq> [] \<Longrightarrow>
   newEntitySelector src rt (''@e['' @ a @ '']'') loc exec el =
     parseArguments src rt a
       \<lparr>selectorString = ''@e['' @ a @ '']'',
        executionLocation = (case loc of Some l \<Rightarrow> Some l | None \<Rightarrow> map_option el exec),
        executor = exec, targetSelectorSymbol = ''@e'', queryOptions = no_options,
        hasItemFilters = [], console = []\<rparr>"
  by (simp add: newEntitySelector_def parseSelectorString_def selectorMatch_def inner_def butlast_append)

lemma noLineTerminator_literal:
  "noLineTerminator ''type=!minecraft:pig,type=!minecraft:cow''"
  "noLineTerminator ''type=minecraft:pig,type=minecraft:cow''"
  by (simp_all add: noLineTerminator_def)

lemma typeValues_examples:
  "typeValues (tokenize ''type=!minecraft:pig,type=!minecraft:cow'') = [''!minecraft:pig'', ''!minecraft:cow'']"
  "typeValues (tokenize ''type=minecraft:pig,type=minecraft:cow'') = [''minecraft:pig'', ''minecraft:cow'']"
  by code_simp+

text \<open>
  C4. Of the \<open>type\<close> arguments of a selector, every negated one (\<open>type=!X\<close>) appends \<open>X\<close> to
  the exclusions, in order, and the last one that is not negated is the positive type;
  no other argument touches either. After \<open>type=!minecraft:pig,type=!minecraft:cow\<close> both
  exclusions are recorded, and after \<open>type=minecraft:pig,type=minecraft:cow\<close> the positive
  type is \<open>minecraft:cow\<close>.
\<close>

theorem C4_type_arguments:
  "qtype (queryOptions (parseArguments src rt argsString s)) =
     (if positiveTypes (typeValues (tokenize argsString)) = [] then qtype (queryOptions s)
      else Some (last (positiveTypes (typeValues (tokenize argsString))))) \<and>
   excludeTypes (queryOptions (parseArguments src rt argsString s)) =
     (if negatedTypes (typeValues (tokenize argsString)) = [] then excludeTypes (queryOptions s)
      else Some ((case excludeTypes (queryOptions s) of None \<Rightarrow> [] | Some xs \<Rightarrow> xs) @
                 negatedTypes (typeValues (tokenize argsString)))) \<and>
   excludeTypes (queryOptions
       (newEntitySelector src rt ''@e[type=!minecraft:pig,type=!minecraft:cow]'' loc exec el)) =
     Some [''minecraft:pig'', ''minecraft:cow''] \<and>
   qtype (queryOptions
       (newEntitySelector src rt ''@e[type=minecraft:pig,type=minecraft:cow]'' loc exec el)) =
     Some ''minecraft:cow''"
proof -
  have ex1: "excludeTypes (queryOptions
       (newEntitySelector src rt ''@e[type=!minecraft:pig,type=!minecraft:cow]'' loc exec el)) =
     Some [''minecraft:pig'', ''minecraft:cow'']"
    using newEntitySelector_brackets [OF noLineTerminator_literal(1), of src rt loc exec el]
    by (simp add: parseArguments_def interpretAll_types typeValues_examples negatedTypes_def
        startsWith_def no_options_def)
  have ex2: "qtype (queryOptions
       (newEntitySelector src rt ''@e[type=minecraft:pig,type=minecraft:cow]'' loc exec el)) =
     Some ''minecraft:cow''"
    using newEntitySelector_brackets [OF noLineTerminator_literal(2), of src rt loc exec el]
    by (simp add: parseArguments_def interpretAll_types typeValues_examples positiveTypes_def
        startsWith_def)
  show ?thesis
    using ex1 ex2 by (simp add: parseArguments_def interpretAll_types)
qed

theorem C4_type_arguments_witness:
  "qtype (queryOptions (parseArguments part_000 rt_int ''type=a,type=!b,tag=c,type=d,type=!e'' blank)) =
     Some ''d'' \<and>
   excludeTypes (queryOptions
       (parseArguments part_000 rt_int ''type=a,type=!b,tag=c,type=d,type=!e'' blank)) =
     Some [''b'', ''e'']"
proof -
  have "typeValues (tokenize ''type=a,type=!b,tag=c,type=d,type=!e'') = [''a'', ''!b'', ''d'', ''!e'']"
    by code_simp
  then show ?thesis
    using C4_type_arguments [of part_000 rt_int "''type=a,type=!b,tag=c,type=d,type=!e''" blank
        None "None :: nat option" "\<lambda>e. zeroVector"]
    by (simp add: positiveTypes_def negatedTypes_def startsWith_def no_options_def blank_def)
qed

section \<open>Keys the interpreter knows, and tokens without a value\<close>

lemma newEntitySelector_rx45:
  "newEntitySelector src rt ''@e[rx=45]'' loc exec el =
     parseArgument src rt ''rx=45''
       \<lparr>selectorString = ''@e[rx=45]'',
        executionLocation = (case loc of Some l \<Rightarrow> Some l | None \<Rightarrow> map_option el exec),
        executor = exec, targetSelectorSymbol = ''@e'', queryOptions = no_options,
        hasItemFilters = [], console = []\<rparr>"
  by (simp add: newEntitySelector_def parseSelectorString_def selectorMatch_def inner_def
      noLineTerminator_def parseArguments_def interpretAll_def tokenize_def trim_def is_ws_def)

lemma keyValue_rx45: "keyValue ''rx=45'' = Some (''rx'', ''45'')"
  by (simp add: keyValue_def trim_def is_ws_def stripQuotes_def dquote_def)

text \<open>
  C5. In part_000 the keys \<open>rx\<close>, \<open>rxm\<close>, \<open>ry\<close> and \<open>rym\<close> set the largest pitch, the
  smallest pitch, the largest yaw and the smallest yaw. In src/EntitySelectorParser.ts
  the same keys reach the \<^verbatim>\<open>default\<close> case: the query is left as it was and a warning
  about an unsupported argument is printed, as for \<open>@e[rx=45]\<close>.
\<close>

theorem C5_rotation_keys:
  "dispatch part_000 rt ''rx'' v s =
     s\<lparr>queryOptions := (queryOptions s)\<lparr>maxVerticalRotation := Some (parseFloat rt v)\<rparr>\<rparr> \<and>
   dispatch part_000 rt ''rxm'' v s =
     s\<lparr>queryOptions := (queryOptions s)\<lparr>minVerticalRotation := Some (parseFloat rt v)\<rparr>\<rparr> \<and>
   dispatch part_000 rt ''ry'' v s =
     s\<lparr>queryOptions := (queryOptions s)\<lparr>maxHorizontalRotation := Some (parseFloat rt v)\<rparr>\<rparr> \<and>
   dispatch part_000 rt ''rym'' v s =
     s\<lparr>queryOptions := (queryOptions s)\<lparr>minHorizontalRotation := Some (parseFloat rt v)\<rparr>\<rparr> \<and>
   dispatch EntitySelectorParser_ts rt ''rx'' v s = warn (UnsupportedArgument ''rx'') s \<and>
   dispatch EntitySelectorParser_ts rt ''rxm'' v s = warn (UnsupportedArgument ''rxm'') s \<and>
   dispatch EntitySelectorParser_ts rt ''ry'' v s = warn (UnsupportedArgument ''ry'') s \<and>
   dispatch EntitySelectorParser_ts rt ''rym'' v s = warn (UnsupportedArgument ''rym'') s \<and>
   queryOptions (newEntitySelector EntitySelectorParser_ts rt ''@e[rx=45]'' loc exec el) = no_options \<and>
   console (newEntitySelector EntitySelectorParser_ts rt ''@e[rx=45]'' loc exec el) =
     [UnsupportedArgument ''rx''] \<and>
   maxVerticalRotation (queryOptions (newEntitySelector part_000 rt ''@e[rx=45]'' loc exec el)) =
     Some (parseFloat rt ''45'')"
  by (simp add: newEntitySelector_rx45 parseArgument_keyValue keyValue_rx45)
     (simp add: dispatch_def Let_def)

theorem C5_rotation_keys_witness:
  "maxVerticalRotation (queryOptions (newEntitySelector part_000 rt_int ''@e[rx=45]'' None
      (None :: nat option) (\<lambda>e. zeroVector))) = Some (Num 45) \<and>
   maxVerticalRotation (queryOptions (newEntitySelector EntitySelectorParser_ts rt_int ''@e[rx=45]'' None
      (None :: nat option) (\<lambda>e. zeroVector))) = None"
proof -
  have "parseFloat rt_int ''45'' = Num 45"
    by (simp add: rt_int_def integerPrefix_def is_ws_def is_digit_def digit_value_def)
  then show ?thesis
    using C5_rotation_keys [of rt_int "[]" blank None "None :: nat option" "\<lambda>e. zeroVector"]
    by (simp add: no_options_def)
qed

lemma newEntitySelector_type_only:
  "newEntitySelector src rt ''@e[type]'' loc exec el =
     parseArgument src rt ''type''
       \<lparr>selectorString = ''@e[type]'',
        executionLocation = (case loc of Some l \<Rightarrow> Some l | None \<Rightarrow> map_option el exec),
        executor = exec, targetSelectorSymbol = ''@e'', queryOptions = no_options,
        hasItemFilters = [], console = []\<rparr>"
  by (simp add: newEntitySelector_def parseSelectorString_def selectorMatch_def inner_def
      noLineTerminator_def parseArguments_def interpretAll_def tokenize_def trim_def is_ws_def)

lemma keyValue_type_only: "keyValue ''type'' = Some (''type'', [])"
  by (simp add: keyValue_def trim_def is_ws_def stripQuotes_def)

text \<open>
  C10. A token is cut at its first \<open>=\<close>: the value is all that follows it, later \<open>=\<close>
  included. A token with no \<open>=\<close> has the empty text as its value and is dispatched all
  the same: the token \<open>type\<close> sets the positive type to the empty text, and no warning is
  printed.
\<close>

theorem C10_token_without_value:
  "keyValue ''scores={level=5..10}'' = Some (''scores'', ''{level=5..10}'') \<and>
   keyValue ''type'' = Some (''type'', []) \<and>
   parseArgument src rt ''type'' s = s\<lparr>queryOptions := (queryOptions s)\<lparr>qtype := Some []\<rparr>\<rparr> \<and>
   qtype (queryOptions (newEntitySelector src rt ''@e[type]'' loc exec el)) = Some [] \<and>
   console (newEntitySelector src rt ''@e[type]'' loc exec el) = []"
proof -
  have "keyValue ''scores={level=5..10}'' = Some (''scores'', ''{level=5..10}'')"
    by (simp add: keyValue_def trim_def is_ws_def stripQuotes_def dquote_def)
  then show ?thesis
    by (simp add: newEntitySelector_type_only parseArgument_keyValue keyValue_type_only
        dispatch_type startsWith_def)
qed

theorem C10_token_without_value_witness:
  "qtype (queryOptions (newEntitySelector part_000 rt_int ''@e[type]'' None (None :: nat option)
      (\<lambda>e. zeroVector))) = Some []"
  using C10_token_without_value [of part_000 rt_int blank None "None :: nat option" "\<lambda>e. zeroVector"]
  by simp

section \<open>The volume filter\<close>

lemma js_add_zero: "js_add rs a (Num 0) = a"
  by (cases a) simp_all

lemma js_min_same: "js_min a a = a" "js_max a a = a"
  by (simp_all add: js_min_def js_max_def)

lemma isWithinVolume_computed:
  "isWithinVolume rs p org ext \<longleftrightarrow>
     inComputedAxis rs (vec_x p) (vec_x org) (vec_x ext) \<and>
     inComputedAxis rs (vec_y p) (vec_y org) (vec_y ext) \<and>
     inComputedAxis rs (vec_z p) (vec_z org) (vec_z ext)"
  by (simp add: isWithinVolume_def inComputedAxis_def Let_def js_add_zero js_min_same)

lemma filterByVolumeTest_eq: "filterByVolumeTest rs el loc vol = isWithinVolume rs el loc vol"
  by (simp add: isWithinVolume_def filterByVolumeTest_def Let_def)

lemma inComputedAxis_exact:
  "exactAxis rs org ext \<Longrightarrow> inComputedAxis rs (Num p) (Num org) (Num ext) \<longleftrightarrow> inAxis p org ext"
  by (cases "ext = 0")
    (auto simp add: exactAxis_def inComputedAxis_def inAxis_def js_min_def js_max_def
      simp del: js_add.simps)

lemma isWithinVolume_exact:
  "exactAxis rs ox vx \<and> exactAxis rs oy vy \<and> exactAxis rs oz vz \<longrightarrow>
     (isWithinVolume rs (vec px py pz) (vec ox oy oz) (vec vx vy vz) \<longleftrightarrow>
        inAxis px ox vx \<and> inAxis py oy vy \<and> inAxis pz oz vz)"
  by (simp add: isWithinVolume_computed vec_def inComputedAxis_exact del: js_add.simps)

lemma isWithinVolume_examples:
  "isWithinVolume rs (vec 0 0 0) (vec 0 0 0) (vec 0 0 2)"
  "\<not> isWithinVolume rs (vec 0 0 2) (vec 0 0 0) (vec 0 0 2)"
  "\<not> isWithinVolume rs (vec 0 1 0) (vec 0 0 0) (vec 0 0 2)"
  by (simp_all add: isWithinVolume_computed vec_def inComputedAxis_def js_min_def js_max_def)

lemma floorlog_one: "floorlog 2 (Suc 0) = Suc 0"
  by (simp add: floorlog_def)

lemma nearestDouble_near_one:
  assumes "0 \<le> d" "d < 1 / 2 ^ 53"
  shows "nearestDouble (1 + d) = Some 1"
proof -
  have d1: "d < 1" using assms(2) by (rule less_trans) simp
  have f: "\<lfloor>d\<rfloor> = 0" using assms(1) d1 by (simp add: floor_eq_iff)
  have b: "binade (1 + d) = 0" using assms(1) by (simp add: binade_def f floorlog_one)
  have u: "pow2 (max 0 (- 1022) - 52) = 1 / 2 ^ 52" by (simp add: pow2_def)
  have m: "d * 2 ^ 52 < 1 / 2"
  proof -
    have "d * 2 ^ 52 < (1 / 2 ^ 53) * 2 ^ 52" using assms(2) by simp
    also have "\<dots> = (1 / 2 :: real)" by simp
    finally show ?thesis .
  qed
  have m0: "0 \<le> d * 2 ^ 52" using assms(1) by simp
  have q: "(1 + d) / (1 / 2 ^ 52) = 2 ^ 52 + d * 2 ^ 52" by (simp add: algebra_simps)
  have fl: "\<lfloor>2 ^ 52 + d * 2 ^ 52 :: real\<rfloor> = 2 ^ 52"
    by (rule floor_unique) (use m m0 in simp_all)
  have ne: "1 + d \<noteq> 0" using assms(1) by simp
  show ?thesis
    unfolding nearestDouble_def b u q Let_def fl
    using ne m by simp
qed

lemma js_add_near_one:
  assumes "0 < d" "d < 1 / 2 ^ 53"
  shows "js_add ieeeSum (Num 1) (Num d) = Num 1"
proof -
  have d1: "d < 1" using assms(2) by (rule less_trans) simp
  have f: "\<lfloor>d\<rfloor> = 0" using assms(1) d1 by (simp add: floor_eq_iff)
  have ne: "\<not> exactSum 1 d" using assms(1) by (simp add: exactSum_def f)
  have i: "ieeeSum 1 d = Some 1"
    unfolding ieeeSum_def using assms by (intro nearestDouble_near_one) simp_all
  show ?thesis
    using assms(1) by (simp add: ne i)
qed

lemma volume_near_one:
  assumes "0 < d" "d < 1 / 2 ^ 53"
  shows "inAxis 1 1 d \<and> inAxis 0 0 0 \<and>
    \<not> isWithinVolume ieeeSum (vec 1 0 0) (vec 1 0 0) (vec d 0 0) \<and>
    \<not> filterByVolumeTest ieeeSum (vec 1 0 0) (vec 1 0 0) (vec d 0 0)"
proof -
  have x: "\<not> inComputedAxis ieeeSum (Num 1) (Num 1) (Num d)"
    using assms(1) by (simp add: inComputedAxis_def js_add_near_one [OF assms] js_min_same del: js_add.simps)
  show ?thesis
    unfolding filterByVolumeTest_eq isWithinVolume_computed
    using assms(1) x by (simp add: inAxis_def vec_def del: js_add.simps)
qed

text \<open>
  C6 (amended). On every axis the test of both files accepts a position exactly when it
  lies in the interval, closed below and open above, between the origin and the sum of
  origin and extent as the engine computes it in double precision, an extent of zero
  standing for one unit added the same way; the filter of src/EntitySelectorParser.ts
  keeps the entities whose location passes that test. Where the computed sums are the
  sums of the reals, this is the box from the origin to the origin plus the volume. With
  origin (0,0,0) and volume (0,0,2), the position (0,0,0) is accepted, and (0,0,2) and
  (0,1,0) are not.
\<close>

theorem C6_volume_box:
  "(isWithinVolume rs p org ext \<longleftrightarrow>
      inComputedAxis rs (vec_x p) (vec_x org) (vec_x ext) \<and>
      inComputedAxis rs (vec_y p) (vec_y org) (vec_y ext) \<and>
      inComputedAxis rs (vec_z p) (vec_z org) (vec_z ext)) \<and>
   (filterByVolumeTest rs p org ext \<longleftrightarrow>
      inComputedAxis rs (vec_x p) (vec_x org) (vec_x ext) \<and>
      inComputedAxis rs (vec_y p) (vec_y org) (vec_y ext) \<and>
      inComputedAxis rs (vec_z p) (vec_z org) (vec_z ext)) \<and>
   filterByVolume h es org ext =
      filter (\<lambda>e. filterByVolumeTest (roundedSum h) (entityLocation h e) org ext) es \<and>
   (exactAxis rs ox vx \<and> exactAxis rs oy vy \<and> exactAxis rs oz vz \<longrightarrow>
      (isWithinVolume rs (vec px py pz) (vec ox oy oz) (vec vx vy vz) \<longleftrightarrow>
         inAxis px ox vx \<and> inAxis py oy vy \<and> inAxis pz oz vz)) \<and>
   (exactAxis rs ox vx \<and> exactAxis rs oy vy \<and> exactAxis rs oz vz \<longrightarrow>
      (filterByVolumeTest rs (vec px py pz) (vec ox oy oz) (vec vx vy vz) \<longleftrightarrow>
         inAxis px ox vx \<and> inAxis py oy vy \<and> inAxis pz oz vz)) \<and>
   isWithinVolume rs (vec 0 0 0) (vec 0 0 0) (vec 0 0 2) \<and>
   \<not> isWithinVolume rs (vec 0 0 2) (vec 0 0 0) (vec 0 0 2) \<and>
   \<not> isWithinVolume rs (vec 0 1 0) (vec 0 0 0) (vec 0 0 2)"
proof -
  have f: "filterByVolume h es org ext =
      filter (\<lambda>e. filterByVolumeTest (roundedSum h) (entityLocation h e) org ext) es"
    by (simp add: filterByVolume_def)
  show ?thesis
    unfolding filterByVolumeTest_eq
    by (intro conjI isWithinVolume_computed isWithinVolume_exact isWithinVolume_examples
        f [unfolded filterByVolumeTest_eq])
qed

theorem C6_volume_box_witness:
  "exactAxis ieeeSum 0 1 \<and> exactAxis ieeeSum 3 0 \<and> exactAxis ieeeSum 1 (- 2) \<and>
   isWithinVolume ieeeSum (vec (1 / 2) 3 (- 1)) (vec 0 3 1) (vec 1 0 (- 2)) \<and>
   \<not> filterByVolumeTest ieeeSum (vec 1 3 (- 1)) (vec 0 3 1) (vec 1 0 (- 2))"
proof -
  have e: "exactAxis ieeeSum 0 1" "exactAxis ieeeSum 3 0" "exactAxis ieeeSum 1 (- 2)"
    by (simp_all add: exactAxis_def exactSum_def)
  show ?thesis
    using C6_volume_box [THEN conjunct2, THEN conjunct2, THEN conjunct2, THEN conjunct1,
        of ieeeSum 0 1 3 0 1 "- 2" "1 / 2" 3 "- 1"]
      C6_volume_box [THEN conjunct2, THEN conjunct2, THEN conjunct2, THEN conjunct2, THEN conjunct1,
        of ieeeSum 0 1 3 0 1 "- 2" 1 3 "- 1"]
      e
    by (simp add: inAxis_def)
qed

theorem C6_counterexample:
  "inAxis 1 1 (1 / 2 ^ 60) \<and> inAxis 0 0 0 \<and>
   \<not> isWithinVolume ieeeSum (vec 1 0 0) (vec 1 0 0) (vec (1 / 2 ^ 60) 0 0) \<and>
   \<not> filterByVolumeTest ieeeSum (vec 1 0 0) (vec 1 0 0) (vec (1 / 2 ^ 60) 0 0)"
  using volume_near_one [of "1 / 2 ^ 60"] by simp

section \<open>The range grammar on decimal numerals\<close>

lemma digit_char_props:
  "d < 10 \<Longrightarrow> is_digit (digit_char d) \<and> digit_value (digit_char d) = int d"
proof -
  assume "d < 10"
  then have "d \<in> {0, 1, 2, 3, 4, 5, 6, 7, 8, 9}" by auto
  then show ?thesis by (auto simp: digit_char_def is_digit_def digit_value_def)
qed

lemma is_digit_digit_char: "d < 10 \<Longrightarrow> is_digit (digit_char d)"
  by (simp add: digit_char_props)


lemma is_digit_not_special:
  "is_digit c \<Longrightarrow> \<not> is_ws c \<and> c \<noteq> CHR ''-'' \<and> c \<noteq> CHR ''+'' \<and> c \<noteq> CHR ''.''"
  by (auto simp: is_digit_def is_ws_def)

lemma dec_nat_digits: "list_all is_digit (dec_nat n)"
  by (induction n rule: dec_nat.induct) (subst dec_nat.simps, simp add: is_digit_digit_char)

lemma dec_nat_nonempty: "dec_nat n \<noteq> []"
  by (subst dec_nat.simps) simp





lemma hd_dec_nat: "is_digit (hd (dec_nat n))"
  using dec_nat_digits [of n] dec_nat_nonempty [of n] by (cases "dec_nat n") simp_all
















lemma bare_integer_dec: "bare_integer (dec a)"
  using dec_nat_nonempty dec_nat_digits hd_dec_nat [of "nat a"] is_digit_not_special
  by (auto simp: bare_integer_def dec_def)

















section \<open>Evaluation leaves the object as it was\<close>

lemma switch_this:
  "fr_this (switch_EntitySelectorParser_ts h rnd f) =
     (if targetSelectorSymbol (fr_this f) = ''@s'' \<and> executor (fr_this f) = None
        then warn SelfNeedsExecutor (fr_this f) else fr_this f)"
  by (simp add: switch_EntitySelectorParser_ts_def Let_def split: option.splits)

lemma getEntities_A_this:
  "snd (getEntities_EntitySelectorParser_ts h rnd s) =
     (if targetSelectorSymbol s = ''@s'' \<and> executor s = None then warn SelfNeedsExecutor s else s)"
  by (simp add: getEntities_EntitySelectorParser_ts_def Let_def switch_this split: option.splits prod.splits)

lemma selfBlock_this:
  "fr_this (selfBlock h f) =
     (if executor (fr_this f) = None then warn SelfNeedsExecutor (fr_this f) else fr_this f)"
  by (simp add: selfBlock_def Let_def split: option.splits)

lemma getEntities_B_this:
  "snd (getEntities_part_000 h rnd s) =
     (if targetSelectorSymbol s = ''@s'' \<and> executor s = None then warn SelfNeedsExecutor s else s)"
  by (simp add: getEntities_part_000_def Let_def selfBlock_this split: option.splits)

lemma switch_console:
  "fr_entities (switch_EntitySelectorParser_ts h rnd (f\<lparr>fr_this := (fr_this f)\<lparr>console := c\<rparr>\<rparr>)) =
   fr_entities (switch_EntitySelectorParser_ts h rnd f)"
  by (simp add: switch_EntitySelectorParser_ts_def Let_def warn_def split: option.splits)

lemma getEntities_A_console:
  "fst (getEntities_EntitySelectorParser_ts h rnd (s\<lparr>console := c\<rparr>)) =
   fst (getEntities_EntitySelectorParser_ts h rnd s)"
proof -
  let ?f = "\<lparr>fr_this = s, fr_query = (queryOptions s)\<lparr>scoreOptions := None\<rparr>, fr_entities = []\<rparr>"
  have e: "fr_entities (switch_EntitySelectorParser_ts h rnd
             \<lparr>fr_this = s\<lparr>console := c\<rparr>, fr_query = (queryOptions s)\<lparr>scoreOptions := None\<rparr>, fr_entities = []\<rparr>) =
           fr_entities (switch_EntitySelectorParser_ts h rnd ?f)"
    using switch_console [where f = ?f and c = c and h = h and rnd = rnd] by simp
  show ?thesis
    by (simp add: getEntities_EntitySelectorParser_ts_def Let_def switch_this e warn_def
        split: option.splits prod.splits)
qed

lemma selfBlock_console:
  "fr_entities (selfBlock h (f\<lparr>fr_this := (fr_this f)\<lparr>console := c\<rparr>\<rparr>)) = fr_entities (selfBlock h f)"
  by (simp add: selfBlock_def Let_def warn_def split: option.splits)

lemma symbolOverrides_console:
  "symbolOverrides (s\<lparr>console := c\<rparr>) q = symbolOverrides s q"
  by (simp add: symbolOverrides_def)

lemma getEntities_B_console:
  "fst (getEntities_part_000 h rnd (s\<lparr>console := c\<rparr>)) = fst (getEntities_part_000 h rnd s)"
proof -
  let ?f = "\<lparr>fr_this = s, fr_query = queryOptions s, fr_entities = []\<rparr>"
  have e: "fr_entities (selfBlock h \<lparr>fr_this = s\<lparr>console := c\<rparr>, fr_query = queryOptions s, fr_entities = []\<rparr>) =
           fr_entities (selfBlock h ?f)"
    using selfBlock_console [where f = ?f and c = c and h = h] by simp
  show ?thesis
    by (cases "executionLocation s")
      (auto simp add: getEntities_part_000_def Let_def e symbolOverrides_console)
qed

text \<open>
  C9. A call of \<^verbatim>\<open>getEntities\<close>, in either file, returns the object with every field as
  it was: the selector symbol, the query options and the item filters (and the selector
  string, the context location and the executor) are unchanged, the overrides by symbol
  having gone to the per-call copy; only the list of printed warnings can grow. So a
  second evaluation returns what it would have returned on the object as constructed.
\<close>

theorem C9_evaluation_frame:
  "(snd (getEntities_EntitySelectorParser_ts h rnd s))\<lparr>console := console s\<rparr> = s \<and>
   (snd (getEntities_part_000 h rnd s))\<lparr>console := console s\<rparr> = s \<and>
   targetSelectorSymbol (snd (getEntities_EntitySelectorParser_ts h rnd s)) = targetSelectorSymbol s \<and>
   queryOptions (snd (getEntities_EntitySelectorParser_ts h rnd s)) = queryOptions s \<and>
   hasItemFilters (snd (getEntities_EntitySelectorParser_ts h rnd s)) = hasItemFilters s \<and>
   targetSelectorSymbol (snd (getEntities_part_000 h rnd s)) = targetSelectorSymbol s \<and>
   queryOptions (snd (getEntities_part_000 h rnd s)) = queryOptions s \<and>
   hasItemFilters (snd (getEntities_part_000 h rnd s)) = hasItemFilters s \<and>
   fst (getEntities_EntitySelectorParser_ts h' rnd' (snd (getEntities_EntitySelectorParser_ts h rnd s))) =
     fst (getEntities_EntitySelectorParser_ts h' rnd' s) \<and>
   fst (getEntities_part_000 h' rnd' (snd (getEntities_part_000 h rnd s))) =
     fst (getEntities_part_000 h' rnd' s)"
proof -
  have w: "warn SelfNeedsExecutor s = s\<lparr>console := console s @ [SelfNeedsExecutor]\<rparr>"
    by (simp add: warn_def)
  show ?thesis
    by (simp add: getEntities_A_this getEntities_B_this w getEntities_A_console getEntities_B_console)
qed

theorem C9_evaluation_frame_witness:
  "queryOptions (snd (getEntities_part_000 host2 (\<lambda>i. half) (blank\<lparr>targetSelectorSymbol := ''@s''\<rparr>))) =
     no_options \<and>
   console (snd (getEntities_part_000 host2 (\<lambda>i. half) (blank\<lparr>targetSelectorSymbol := ''@s''\<rparr>))) =
     [SelfNeedsExecutor]"
proof -
  have "console (snd (getEntities_part_000 host2 (\<lambda>i. half) (blank\<lparr>targetSelectorSymbol := ''@s''\<rparr>))) =
     [SelfNeedsExecutor]"
    by (simp add: getEntities_B_this blank_def warn_def)
  then show ?thesis
    using C9_evaluation_frame [where h = host2 and rnd = "\<lambda>i. half" and h' = host2 and rnd' = "\<lambda>i. half"
        and s = "blank\<lparr>targetSelectorSymbol := ''@s''\<rparr>"]
    by (simp add: blank_def)
qed

section \<open>Random selection\<close>

lemma randomIndex_less: "0 < n \<Longrightarrow> randomIndex d n < n"
proof -
  assume n: "0 < n"
  have r: "0 \<le> Rep_unit_draw d" "Rep_unit_draw d < 1" using Rep_unit_draw [of d] by simp_all
  then have "Rep_unit_draw d * real n < real n" using n by simp
  moreover have "0 \<le> Rep_unit_draw d * real n" using r by simp
  ultimately have "\<lfloor>Rep_unit_draw d * real n\<rfloor> < int n" by linarith
  moreover have "0 \<le> \<lfloor>Rep_unit_draw d * real n\<rfloor>" using \<open>0 \<le> Rep_unit_draw d * real n\<close> by simp
  ultimately show ?thesis by (simp add: randomIndex_def nat_less_iff)
qed

lemma sampleLoop_props:
  "distinct pool \<Longrightarrow> distinct result \<Longrightarrow> set pool \<inter> set result = {} \<Longrightarrow>
   distinct (sampleLoop rnd i n pool result) \<and>
   set (sampleLoop rnd i n pool result) \<subseteq> set pool \<union> set result \<and>
   length (sampleLoop rnd i n pool result) = length result + min n (length pool)"
proof (induction n arbitrary: i pool result)
  case 0
  then show ?case by simp
next
  case (Suc n)
  show ?case
  proof (cases "pool = []")
    case True
    then show ?thesis using Suc.prems by simp
  next
    case False
    let ?k = "randomIndex (rnd i) (length pool)"
    have k: "?k < length pool" using False by (simp add: randomIndex_less)
    have d: "drop ?k pool = pool ! ?k # drop (Suc ?k) pool"
      using k by (simp add: Cons_nth_drop_Suc)
    let ?pool' = "take ?k pool @ drop (Suc ?k) pool"
    have split: "pool = take ?k pool @ pool ! ?k # drop (Suc ?k) pool"
      using k by (simp add: id_take_nth_drop)
    have dist: "distinct (take ?k pool @ pool ! ?k # drop (Suc ?k) pool)"
      using Suc.prems(1) split by simp
    have sets: "set pool = insert (pool ! ?k) (set ?pool')"
      using split by (metis Un_insert_right list.simps(15) set_append)
    have len: "length pool = Suc (length ?pool')"
      using k by simp
    have p1: "distinct ?pool'" using dist by simp
    have notin: "pool ! ?k \<notin> set ?pool'" using dist by auto
    have p2: "distinct (result @ [pool ! ?k])"
      using Suc.prems(2,3) sets by auto
    have p3: "set ?pool' \<inter> set (result @ [pool ! ?k]) = {}"
      using Suc.prems(3) sets notin by auto
    have step: "sampleLoop rnd i (Suc n) pool result = sampleLoop rnd (Suc i) n ?pool' (result @ [pool ! ?k])"
      using False d by simp
    from Suc.IH [OF p1 p2 p3, of "Suc i"] show ?thesis
      unfolding step using sets len by auto
  qed
qed

lemma sampleLoop_exact:
  assumes "distinct pool" "n \<le> length pool"
  shows "length (sampleLoop rnd 0 n pool []) = n \<and> distinct (sampleLoop rnd 0 n pool []) \<and>
         set (sampleLoop rnd 0 n pool []) \<subseteq> set pool"
  using sampleLoop_props [of pool "[]" rnd 0 n] assms by simp

lemma getEntities_part_000_random:
  "targetSelectorSymbol s = ''@r'' \<Longrightarrow>
   fst (getEntities_part_000 h rnd s) =
     (if matchingPool h s = [] then []
      else sampleLoop rnd 0 (loopRounds (sampleCount (queryOptions s)) (length (matchingPool h s)))
             (matchingPool h s) [])"
  by (cases "executionLocation s") (auto simp add: getEntities_part_000_def Let_def matchingPool_def)

lemma sampleCount_closest:
  "closest q = Some (Num (real_of_int N)) \<Longrightarrow> 0 < N \<Longrightarrow> sampleCount q = Num (real_of_int N)"
  by (simp add: sampleCount_def js_max_def)

lemma part_000_random_sample:
  assumes "targetSelectorSymbol s = ''@r''" "closest (queryOptions s) = Some (Num (real_of_int N))" "0 < N"
    "distinct (matchingPool h s)" "nat N \<le> length (matchingPool h s)"
  shows "length (fst (getEntities_part_000 h rnd s)) = nat N \<and>
         distinct (fst (getEntities_part_000 h rnd s)) \<and>
         set (fst (getEntities_part_000 h rnd s)) \<subseteq> set (matchingPool h s)"
proof -
  have ne: "matchingPool h s \<noteq> []" using assms(3,5) by auto
  show ?thesis
    using sampleLoop_exact [OF assms(4,5), of rnd] ne
    by (simp add: getEntities_part_000_random [OF assms(1)] sampleCount_closest [OF assms(2,3)])
qed

lemma parsed_A:
  "newEntitySelector EntitySelectorParser_ts rt_json ''@r[c=1,hasitem={\"item\":\"apple\"}]'' None
     (None :: nat option) (\<lambda>e. zeroVector) =
   \<lparr>selectorString = ''@r[c=1,hasitem={\"item\":\"apple\"}]'', executionLocation = None, executor = None,
    targetSelectorSymbol = ''@r'', queryOptions = no_options\<lparr>closest := Some (Num 1)\<rparr>,
    hasItemFilters = [appleFilter], console = []\<rparr>"
  by code_simp

lemma parsed_B:
  "newEntitySelector part_000 rt_json ''@r[c=1,hasitem={item=apple}]'' None
     (None :: nat option) (\<lambda>e. zeroVector) =
   \<lparr>selectorString = ''@r[c=1,hasitem={item=apple}]'', executionLocation = None, executor = None,
    targetSelectorSymbol = ''@r'', queryOptions = no_options\<lparr>closest := Some (Num 1)\<rparr>,
    hasItemFilters = [appleFilter], console = []\<rparr>"
  by code_simp

lemma randomIndex_half: "randomIndex half (Suc (Suc 0)) = Suc 0" "randomIndex half (Suc 0) = 0"
  by (simp_all add: randomIndex_def half_def Abs_unit_draw_inverse)

lemma eval_A:
  "fst (getEntities_EntitySelectorParser_ts host2 (\<lambda>i. half)
     \<lparr>selectorString = str, executionLocation = None, executor = None,
      targetSelectorSymbol = ''@r'', queryOptions = no_options\<lparr>closest := Some (Num 1)\<rparr>,
      hasItemFilters = [appleFilter], console = []\<rparr>) = []"
  by (simp add: getEntities_EntitySelectorParser_ts_def switch_EntitySelectorParser_ts_def Let_def
      host2_def no_options_def falsy_def scoreFiltered_def activeScoreOptions_def closestOrOne_def
      randomIndex_half)

lemma eval_B:
  "fst (getEntities_part_000 host2 (\<lambda>i. half)
     \<lparr>selectorString = str, executionLocation = None, executor = None,
      targetSelectorSymbol = ''@r'', queryOptions = no_options\<lparr>closest := Some (Num 1)\<rparr>,
      hasItemFilters = [appleFilter], console = []\<rparr>) = [0]"
  by (simp add: getEntities_part_000_def Let_def host2_def no_options_def needsLocation_def
      symbolOverrides_def falsy_def hasItemFiltered_def sampleCount_def closestOrOne_def
      js_max_def randomIndex_half)

text \<open>
  C7. In part_000, an \<open>@r\<close> selector with \<open>c=N\<close>, \<open>N > 0\<close>, over a pool of at least \<open>N\<close>
  matching entities (each listed once by the host) returns exactly \<open>N\<close> entities of the
  pool, none twice, whatever the random draws. In src/EntitySelectorParser.ts the item
  filter runs after the draw: for \<open>@r[c=1,hasitem={"item":"apple"}]\<close> over two players of
  which only the first holds the item, a draw that picks the second leaves an empty
  result, although one entity matches.
\<close>

theorem C7_random_sample:
  "(targetSelectorSymbol s = ''@r'' \<and> closest (queryOptions s) = Some (Num (real_of_int N)) \<and> 0 < N \<and>
    distinct (matchingPool h s) \<and> nat N \<le> length (matchingPool h s) \<longrightarrow>
      length (fst (getEntities_part_000 h rnd s)) = nat N \<and>
      distinct (fst (getEntities_part_000 h rnd s)) \<and>
      set (fst (getEntities_part_000 h rnd s)) \<subseteq> set (matchingPool h s)) \<and>
   closest (queryOptions (newEntitySelector EntitySelectorParser_ts rt_json
       ''@r[c=1,hasitem={\"item\":\"apple\"}]'' None (None :: nat option) (\<lambda>e. zeroVector))) = Some (Num 1) \<and>
   hasItemFilters (newEntitySelector EntitySelectorParser_ts rt_json
       ''@r[c=1,hasitem={\"item\":\"apple\"}]'' None (None :: nat option) (\<lambda>e. zeroVector)) = [appleFilter] \<and>
   filter (\<lambda>e. checkSingleEntityHasItem host2 e appleFilter) (dimensionGetEntities host2 q) = [0] \<and>
   fst (getEntities_EntitySelectorParser_ts host2 (\<lambda>i. half)
         (newEntitySelector EntitySelectorParser_ts rt_json
            ''@r[c=1,hasitem={\"item\":\"apple\"}]'' None None (\<lambda>e. zeroVector))) = [] \<and>
   fst (getEntities_part_000 host2 (\<lambda>i. half)
         (newEntitySelector part_000 rt_json
            ''@r[c=1,hasitem={item=apple}]'' None None (\<lambda>e. zeroVector))) = [0]"
proof -
  have pool: "filter (\<lambda>e. checkSingleEntityHasItem host2 e appleFilter) (dimensionGetEntities host2 q) = [0]"
    by (simp add: host2_def)
  have a: "closest (queryOptions (newEntitySelector EntitySelectorParser_ts rt_json
       ''@r[c=1,hasitem={\"item\":\"apple\"}]'' None (None :: nat option) (\<lambda>e. zeroVector))) = Some (Num 1)"
    "hasItemFilters (newEntitySelector EntitySelectorParser_ts rt_json
       ''@r[c=1,hasitem={\"item\":\"apple\"}]'' None (None :: nat option) (\<lambda>e. zeroVector)) = [appleFilter]"
    by (simp_all add: parsed_A no_options_def)
  have b: "fst (getEntities_EntitySelectorParser_ts host2 (\<lambda>i. half)
         (newEntitySelector EntitySelectorParser_ts rt_json
            ''@r[c=1,hasitem={\"item\":\"apple\"}]'' None None (\<lambda>e. zeroVector))) = []"
    by (simp only: parsed_A eval_A)
  have c: "fst (getEntities_part_000 host2 (\<lambda>i. half)
         (newEntitySelector part_000 rt_json
            ''@r[c=1,hasitem={item=apple}]'' None None (\<lambda>e. zeroVector))) = [0]"
    by (simp only: parsed_B eval_B)
  have d: "targetSelectorSymbol s = ''@r'' \<and> closest (queryOptions s) = Some (Num (real_of_int N)) \<and> 0 < N \<and>
    distinct (matchingPool h s) \<and> nat N \<le> length (matchingPool h s) \<longrightarrow>
      length (fst (getEntities_part_000 h rnd s)) = nat N \<and>
      distinct (fst (getEntities_part_000 h rnd s)) \<and>
      set (fst (getEntities_part_000 h rnd s)) \<subseteq> set (matchingPool h s)"
    using part_000_random_sample [of s N h rnd] by blast
  show ?thesis
    by (intro conjI d a pool b c)
qed

theorem C7_random_sample_witness:
  "length (fst (getEntities_part_000 host2 (\<lambda>i. half)
       (newEntitySelector part_000 rt_json ''@r[c=1,hasitem={item=apple}]'' None None (\<lambda>e. zeroVector)))) = 1 \<and>
   set (fst (getEntities_part_000 host2 (\<lambda>i. half)
       (newEntitySelector part_000 rt_json ''@r[c=1,hasitem={item=apple}]'' None None (\<lambda>e. zeroVector)))) \<subseteq> {0}"
proof -
  let ?s = "newEntitySelector part_000 rt_json ''@r[c=1,hasitem={item=apple}]'' None
     (None :: nat option) (\<lambda>e. zeroVector)"
  have pool: "matchingPool host2 ?s = [0]"
    by (simp add: parsed_B matchingPool_def host2_def hasItemFiltered_def)
  have sym: "targetSelectorSymbol ?s = ''@r''" "closest (queryOptions ?s) = Some (Num 1)"
    by (simp_all add: parsed_B no_options_def)
  show ?thesis
    using C7_random_sample [THEN conjunct1, of ?s 1 host2 "\<lambda>i. half"] pool sym
    by simp
qed

end
